theory Spec2Isabelle
  imports Complex_Main "HOL-Library.Multiset"
begin

section \<open>JavaScript values and array primitives\<close>

text \<open>
  The services are TypeScript classes. A JavaScript \<open>number\<close> is modelled as an exact
  real: sums, products, quotients and square roots are the mathematical ones, rounding
  and the special values of IEEE arithmetic are not modelled. Indices and counts are
  integers. A string is a list of code units below 256.
\<close>

type_synonym number = real

text \<open>
  \<open>Array.prototype.slice(start, end)\<close>: a negative index counts from the end of the
  array, every index is clamped to the array.
\<close>

definition js_index :: "int \<Rightarrow> nat \<Rightarrow> nat" where
  "js_index i n = (if i < 0 then nat (max (int n + i) 0) else min (nat i) n)"

definition js_slice :: "'a list \<Rightarrow> int \<Rightarrow> int \<Rightarrow> 'a list" where
  "js_slice xs start fin =
     (let n = length xs; k = js_index start n; final = js_index fin n
      in take (final - k) (drop k xs))"

text \<open>
  \<open>Array.prototype.sort(compareFn)\<close> is a stable sort: an element \<open>a\<close> is moved behind
  an element \<open>b\<close> that follows it only when \<open>compareFn(a, b) > 0\<close>. Insertion from the
  right keeps the original order of elements that compare equal.
\<close>

fun js_insert :: "('a \<Rightarrow> 'a \<Rightarrow> number) \<Rightarrow> 'a \<Rightarrow> 'a list \<Rightarrow> 'a list" where
  "js_insert compareFn a [] = [a]"
| "js_insert compareFn a (b # bs) =
     (if compareFn a b > 0 then b # js_insert compareFn a bs else a # b # bs)"

definition js_sort :: "('a \<Rightarrow> 'a \<Rightarrow> number) \<Rightarrow> 'a list \<Rightarrow> 'a list" where
  "js_sort compareFn xs = foldr (js_insert compareFn) xs []"

text \<open>
  \<open>String.prototype.toLowerCase\<close> and the class \<open>\s\<close> of regular expressions, on code
  units below 256: the upper-case letters are A to Z and U+00C0 to U+00DE without the
  multiplication sign U+00D7; the white-space characters are tab, line feed, vertical
  tab, form feed, carriage return, space and the no-break space U+00A0.
\<close>

definition isSpace :: "char \<Rightarrow> bool" where
  "isSpace c \<longleftrightarrow> (of_char c :: nat) \<in> {9, 10, 11, 12, 13, 32, 160}"

definition toLowerChar :: "char \<Rightarrow> char" where
  "toLowerChar c =
     (let n = (of_char c :: nat)
      in if (65 \<le> n \<and> n \<le> 90) \<or> (192 \<le> n \<and> n \<le> 222 \<and> n \<noteq> 215)
         then char_of (n + 32) else c)"

definition toLowerCase :: "string \<Rightarrow> string" where
  "toLowerCase text = map toLowerChar text"

text \<open>
  \<open>text.split(/\s+/)\<close>: the text is cut at every maximal run of white space; a run at
  the start or at the end leaves an empty word there, and the empty text is one empty
  word.
\<close>

function split_from :: "string \<Rightarrow> string \<Rightarrow> string list" where
  "split_from word [] = [word]"
| "split_from word (c # cs) =
     (if isSpace c then word # split_from [] (dropWhile isSpace cs)
      else split_from (word @ [c]) cs)"
  by pat_completeness auto
termination
  by (relation "measure (\<lambda>(word, cs). length cs)")
     (simp_all add: length_dropWhile_le less_Suc_eq_le)

definition split_whitespace :: "string \<Rightarrow> string list" where
  "split_whitespace text = split_from [] text"

subsection \<open>generateSimpleEmbedding\<close>

text \<open>
  The inner \<open>for\<close> loop over the characters of the word at index \<open>idx\<close>, and the
  \<open>forEach\<close> over the words.
\<close>

fun add_word :: "nat \<Rightarrow> string \<Rightarrow> nat \<Rightarrow> number list \<Rightarrow> number list" where
  "add_word idx [] i emb = emb"
| "add_word idx (ch # rest) i emb =
     (let charCode = (of_char ch :: nat);
          position = (charCode * (idx + 1)) mod 384
      in add_word idx rest (i + 1)
           (emb[position := emb ! position + 1 / (real i + 1)]))"

fun add_words :: "string list \<Rightarrow> nat \<Rightarrow> number list \<Rightarrow> number list" where
  "add_words [] idx emb = emb"
| "add_words (word # words) idx emb =
     add_words words (idx + 1) (add_word idx word 0 emb)"

definition normalize :: "number list \<Rightarrow> number list" where
  "normalize emb =
     (let magnitude = sqrt (foldl (\<lambda>sum val. sum + val * val) 0 emb)
      in if magnitude > 0 then map (\<lambda>val. val / magnitude) emb else emb)"

definition generateSimpleEmbedding :: "string \<Rightarrow> number list" where
  "generateSimpleEmbedding text =
     normalize (add_words (split_whitespace (toLowerCase text)) 0 (replicate 384 0))"

text \<open>
  \<open>TransformersAIService.generateFallbackEmbedding\<close> has the same body as
  \<open>MusicKnowledgeBase.generateSimpleEmbedding\<close>.
\<close>

definition generateFallbackEmbedding :: "string \<Rightarrow> number list" where
  "generateFallbackEmbedding text =
     normalize (add_words (split_whitespace (toLowerCase text)) 0 (replicate 384 0))"

section \<open>MusicKnowledgeBase\<close>

datatype category = Cadence | Phrase | Form | Tonality | Texture | Rhythm | Melody

record rule_features =
  chordProgression :: "int list option"
  melodyContour :: "string option"
  rhythmPattern :: "string option"

record TheoryRule =
  rule_id :: string
  rule_name :: string
  description :: string
  category :: category
  features :: rule_features
  applicablePeriods :: "string list"
  rule_confidence :: number
  embedding :: "number list option"
  similarity :: "number option"

record MusicKnowledgeBase =
  rules :: "TheoryRule list"
  isInitialized :: bool

definition createTheoryRules :: "TheoryRule list" where
  "createTheoryRules = [
    \<lparr>rule_id = ''cadence_authentic'',
     rule_name = ''Authentic Cadence'',
     description = ''Dominant chord resolving to tonic chord (V-I), melody descends to tonic note, creates strong sense of closure'',
     category = Cadence,
     features = \<lparr>chordProgression = Some [5, 1], melodyContour = Some ''descending'', rhythmPattern = None\<rparr>,
     applicablePeriods = [''baroque'', ''classical'', ''romantic'', ''modern''],
     rule_confidence = 0.95,
     embedding = None,
     similarity = None\<rparr>,
    \<lparr>rule_id = ''cadence_half'',
     rule_name = ''Half Cadence'',
     description = ''Any chord resolving to dominant chord, creates sense of incompleteness, often at phrase midpoint'',
     category = Cadence,
     features = \<lparr>chordProgression = Some [1, 5], melodyContour = None, rhythmPattern = None\<rparr>,
     applicablePeriods = [''baroque'', ''classical'', ''romantic''],
     rule_confidence = 0.9,
     embedding = None,
     similarity = None\<rparr>,
    \<lparr>rule_id = ''cadence_plagal'',
     rule_name = ''Plagal Cadence'',
     description = ''Subdominant chord resolving to tonic (IV-I), also called Amen cadence, softer closure'',
     category = Cadence,
     features = \<lparr>chordProgression = Some [4, 1], melodyContour = None, rhythmPattern = None\<rparr>,
     applicablePeriods = [''baroque'', ''classical'', ''romantic''],
     rule_confidence = 0.85,
     embedding = None,
     similarity = None\<rparr>,
    \<lparr>rule_id = ''cadence_deceptive'',
     rule_name = ''Deceptive Cadence'',
     description = ''Dominant chord resolving to submediant (V-vi), unexpected resolution, extends phrase'',
     category = Cadence,
     features = \<lparr>chordProgression = Some [5, 6], melodyContour = None, rhythmPattern = None\<rparr>,
     applicablePeriods = [''baroque'', ''classical'', ''romantic''],
     rule_confidence = 0.85,
     embedding = None,
     similarity = None\<rparr>,
    \<lparr>rule_id = ''phrase_4bar'',
     rule_name = ''Four-bar Phrase'',
     description = ''Standard phrase length of four measures, common in classical music, creates balanced structure'',
     category = Phrase,
     features = \<lparr>chordProgression = None, melodyContour = None, rhythmPattern = Some ''4-bar''\<rparr>,
     applicablePeriods = [''classical'', ''romantic''],
     rule_confidence = 0.9,
     embedding = None,
     similarity = None\<rparr>,
    \<lparr>rule_id = ''phrase_8bar'',
     rule_name = ''Eight-bar Period'',
     description = ''Two four-bar phrases forming antecedent-consequent relationship, standard period structure'',
     category = Phrase,
     features = \<lparr>chordProgression = None, melodyContour = None, rhythmPattern = Some ''8-bar''\<rparr>,
     applicablePeriods = [''classical'', ''romantic''],
     rule_confidence = 0.9,
     embedding = None,
     similarity = None\<rparr>,
    \<lparr>rule_id = ''phrase_sentence'',
     rule_name = ''Sentence Structure'',
     description = ''Basic idea (2 bars) repeated with variation, then continuation and cadence (4 bars)'',
     category = Phrase,
     features = \<lparr>chordProgression = None, melodyContour = None, rhythmPattern = Some ''sentence''\<rparr>,
     applicablePeriods = [''classical''],
     rule_confidence = 0.85,
     embedding = None,
     similarity = None\<rparr>,
    \<lparr>rule_id = ''phrase_period'',
     rule_name = ''Period Structure'',
     description = ''Antecedent phrase ending with half cadence, consequent phrase ending with authentic cadence'',
     category = Phrase,
     features = \<lparr>chordProgression = None, melodyContour = None, rhythmPattern = Some ''period''\<rparr>,
     applicablePeriods = [''classical'', ''romantic''],
     rule_confidence = 0.9,
     embedding = None,
     similarity = None\<rparr>,
    \<lparr>rule_id = ''form_binary'',
     rule_name = ''Binary Form'',
     description = ''Two contrasting sections (AB), each typically repeated, common in dance movements'',
     category = Form,
     features = \<lparr>chordProgression = None, melodyContour = None, rhythmPattern = None\<rparr>,
     applicablePeriods = [''baroque'', ''classical''],
     rule_confidence = 0.9,
     embedding = None,
     similarity = None\<rparr>,
    \<lparr>rule_id = ''form_ternary'',
     rule_name = ''Ternary Form'',
     description = ''Three-part form (ABA), first section returns after contrasting middle section'',
     category = Form,
     features = \<lparr>chordProgression = None, melodyContour = None, rhythmPattern = None\<rparr>,
     applicablePeriods = [''baroque'', ''classical'', ''romantic''],
     rule_confidence = 0.9,
     embedding = None,
     similarity = None\<rparr>,
    \<lparr>rule_id = ''form_sonata'',
     rule_name = ''Sonata Form'',
     description = ''Exposition with two themes, development section, recapitulation returning to tonic'',
     category = Form,
     features = \<lparr>chordProgression = None, melodyContour = None, rhythmPattern = None\<rparr>,
     applicablePeriods = [''classical'', ''romantic''],
     rule_confidence = 0.95,
     embedding = None,
     similarity = None\<rparr>,
    \<lparr>rule_id = ''form_rondo'',
     rule_name = ''Rondo Form'',
     description = ''Main theme alternates with contrasting episodes (ABACA or ABACABA)'',
     category = Form,
     features = \<lparr>chordProgression = None, melodyContour = None, rhythmPattern = None\<rparr>,
     applicablePeriods = [''classical'', ''romantic''],
     rule_confidence = 0.9,
     embedding = None,
     similarity = None\<rparr>,
    \<lparr>rule_id = ''form_variation'',
     rule_name = ''Theme and Variations'',
     description = ''Theme presented then varied through melodic, harmonic, rhythmic, or textural changes'',
     category = Form,
     features = \<lparr>chordProgression = None, melodyContour = None, rhythmPattern = None\<rparr>,
     applicablePeriods = [''baroque'', ''classical'', ''romantic''],
     rule_confidence = 0.9,
     embedding = None,
     similarity = None\<rparr>,
    \<lparr>rule_id = ''tonality_major'',
     rule_name = ''Major Tonality'',
     description = ''Bright, happy character, major third above tonic, stable and resolved feeling'',
     category = Tonality,
     features = \<lparr>chordProgression = None, melodyContour = None, rhythmPattern = None\<rparr>,
     applicablePeriods = [''baroque'', ''classical'', ''romantic'', ''modern''],
     rule_confidence = 0.95,
     embedding = None,
     similarity = None\<rparr>,
    \<lparr>rule_id = ''tonality_minor'',
     rule_name = ''Minor Tonality'',
     description = ''Dark, sad character, minor third above tonic, often more dramatic or melancholic'',
     category = Tonality,
     features = \<lparr>chordProgression = None, melodyContour = None, rhythmPattern = None\<rparr>,
     applicablePeriods = [''baroque'', ''classical'', ''romantic'', ''modern''],
     rule_confidence = 0.95,
     embedding = None,
     similarity = None\<rparr>,
    \<lparr>rule_id = ''tonality_modulation'',
     rule_name = ''Modulation'',
     description = ''Change of key center, often to dominant or relative major/minor, creates contrast'',
     category = Tonality,
     features = \<lparr>chordProgression = None, melodyContour = None, rhythmPattern = None\<rparr>,
     applicablePeriods = [''baroque'', ''classical'', ''romantic''],
     rule_confidence = 0.85,
     embedding = None,
     similarity = None\<rparr>,
    \<lparr>rule_id = ''texture_homophonic'',
     rule_name = ''Homophonic Texture'',
     description = ''Single melody with chordal accompaniment, most common in classical period'',
     category = Texture,
     features = \<lparr>chordProgression = None, melodyContour = None, rhythmPattern = None\<rparr>,
     applicablePeriods = [''classical'', ''romantic''],
     rule_confidence = 0.9,
     embedding = None,
     similarity = None\<rparr>,
    \<lparr>rule_id = ''texture_polyphonic'',
     rule_name = ''Polyphonic Texture'',
     description = ''Multiple independent melodic lines, common in baroque fugues and inventions'',
     category = Texture,
     features = \<lparr>chordProgression = None, melodyContour = None, rhythmPattern = None\<rparr>,
     applicablePeriods = [''baroque'', ''classical''],
     rule_confidence = 0.9,
     embedding = None,
     similarity = None\<rparr>,
    \<lparr>rule_id = ''texture_monophonic'',
     rule_name = ''Monophonic Texture'',
     description = ''Single unaccompanied melodic line, used for emphasis or contrast'',
     category = Texture,
     features = \<lparr>chordProgression = None, melodyContour = None, rhythmPattern = None\<rparr>,
     applicablePeriods = [''baroque'', ''classical'', ''romantic''],
     rule_confidence = 0.85,
     embedding = None,
     similarity = None\<rparr>,
    \<lparr>rule_id = ''rhythm_syncopation'',
     rule_name = ''Syncopation'',
     description = ''Emphasis on weak beats or off-beats, creates rhythmic tension and energy'',
     category = Rhythm,
     features = \<lparr>chordProgression = None, melodyContour = None, rhythmPattern = Some ''syncopated''\<rparr>,
     applicablePeriods = [''baroque'', ''classical'', ''romantic'', ''modern''],
     rule_confidence = 0.85,
     embedding = None,
     similarity = None\<rparr>,
    \<lparr>rule_id = ''rhythm_hemiola'',
     rule_name = ''Hemiola'',
     description = ''Temporary shift from triple to duple meter feel, common before cadences'',
     category = Rhythm,
     features = \<lparr>chordProgression = None, melodyContour = None, rhythmPattern = Some ''hemiola''\<rparr>,
     applicablePeriods = [''baroque'', ''classical''],
     rule_confidence = 0.8,
     embedding = None,
     similarity = None\<rparr>,
    \<lparr>rule_id = ''rhythm_ostinato'',
     rule_name = ''Ostinato'',
     description = ''Repeated rhythmic or melodic pattern, provides foundation and continuity'',
     category = Rhythm,
     features = \<lparr>chordProgression = None, melodyContour = None, rhythmPattern = Some ''ostinato''\<rparr>,
     applicablePeriods = [''baroque'', ''classical'', ''romantic'', ''modern''],
     rule_confidence = 0.85,
     embedding = None,
     similarity = None\<rparr>,
    \<lparr>rule_id = ''melody_sequence'',
     rule_name = ''Melodic Sequence'',
     description = ''Repetition of melodic pattern at different pitch levels, creates momentum'',
     category = Melody,
     features = \<lparr>chordProgression = None, melodyContour = Some ''sequential'', rhythmPattern = None\<rparr>,
     applicablePeriods = [''baroque'', ''classical'', ''romantic''],
     rule_confidence = 0.9,
     embedding = None,
     similarity = None\<rparr>,
    \<lparr>rule_id = ''melody_stepwise'',
     rule_name = ''Stepwise Motion'',
     description = ''Melody moves by adjacent scale degrees, smooth and singable character'',
     category = Melody,
     features = \<lparr>chordProgression = None, melodyContour = Some ''stepwise'', rhythmPattern = None\<rparr>,
     applicablePeriods = [''baroque'', ''classical'', ''romantic''],
     rule_confidence = 0.85,
     embedding = None,
     similarity = None\<rparr>,
    \<lparr>rule_id = ''melody_leap'',
     rule_name = ''Melodic Leap'',
     description = ''Large interval jump in melody, creates emphasis and dramatic effect'',
     category = Melody,
     features = \<lparr>chordProgression = None, melodyContour = Some ''leaping'', rhythmPattern = None\<rparr>,
     applicablePeriods = [''baroque'', ''classical'', ''romantic''],
     rule_confidence = 0.85,
     embedding = None,
     similarity = None\<rparr>,
    \<lparr>rule_id = ''melody_arch'',
     rule_name = ''Arch Contour'',
     description = ''Melody rises to climax then descends, common phrase shape'',
     category = Melody,
     features = \<lparr>chordProgression = None, melodyContour = Some ''arch'', rhythmPattern = None\<rparr>,
     applicablePeriods = [''baroque'', ''classical'', ''romantic''],
     rule_confidence = 0.85,
     embedding = None,
     similarity = None\<rparr>,
    \<lparr>rule_id = ''emotion_energetic'',
     rule_name = ''Energetic Character'',
     description = ''Fast tempo, strong dynamics, rhythmic drive, ascending patterns, major mode'',
     category = Melody,
     features = \<lparr>chordProgression = None, melodyContour = None, rhythmPattern = None\<rparr>,
     applicablePeriods = [''baroque'', ''classical'', ''romantic'', ''modern''],
     rule_confidence = 0.85,
     embedding = None,
     similarity = None\<rparr>,
    \<lparr>rule_id = ''emotion_calm'',
     rule_name = ''Calm Character'',
     description = ''Slow tempo, soft dynamics, smooth legato, consonant harmony, stable rhythm'',
     category = Melody,
     features = \<lparr>chordProgression = None, melodyContour = None, rhythmPattern = None\<rparr>,
     applicablePeriods = [''baroque'', ''classical'', ''romantic'', ''modern''],
     rule_confidence = 0.85,
     embedding = None,
     similarity = None\<rparr>,
    \<lparr>rule_id = ''emotion_dramatic'',
     rule_name = ''Dramatic Character'',
     description = ''Strong contrasts, dissonance, dynamic extremes, irregular rhythm, tension'',
     category = Melody,
     features = \<lparr>chordProgression = None, melodyContour = None, rhythmPattern = None\<rparr>,
     applicablePeriods = [''baroque'', ''classical'', ''romantic'', ''modern''],
     rule_confidence = 0.85,
     embedding = None,
     similarity = None\<rparr>,
    \<lparr>rule_id = ''emotion_playful'',
     rule_name = ''Playful Character'',
     description = ''Light staccato, quick tempo, major mode, simple harmony, dance-like rhythm'',
     category = Melody,
     features = \<lparr>chordProgression = None, melodyContour = None, rhythmPattern = None\<rparr>,
     applicablePeriods = [''classical'', ''romantic''],
     rule_confidence = 0.85,
     embedding = None,
     similarity = None\<rparr>
]"

subsection \<open>initialize\<close>

definition initialize :: "MusicKnowledgeBase \<Rightarrow> MusicKnowledgeBase" where
  "initialize kb =
     (if isInitialized kb then kb
      else kb\<lparr>rules := map (\<lambda>rule. rule\<lparr>embedding := Some (generateSimpleEmbedding (description rule))\<rparr>)
                           createTheoryRules,
              isInitialized := True\<rparr>)"

text \<open>The knowledge base as the constructor leaves it.\<close>

definition new_MusicKnowledgeBase :: MusicKnowledgeBase where
  "new_MusicKnowledgeBase = \<lparr>rules = [], isInitialized = False\<rparr>"

subsection \<open>cosineSimilarity\<close>

text \<open>The loop body of \<open>cosineSimilarity\<close>, run over the two arrays in step.\<close>

fun cosine_loop ::
  "number list \<Rightarrow> number list \<Rightarrow> number \<times> number \<times> number \<Rightarrow> number \<times> number \<times> number" where
  "cosine_loop (x # xs) (y # ys) (dotProduct, norm1, norm2) =
     cosine_loop xs ys (dotProduct + x * y, norm1 + x * x, norm2 + y * y)"
| "cosine_loop _ _ acc = acc"

definition cosineSimilarity :: "number list \<Rightarrow> number list \<Rightarrow> number" where
  "cosineSimilarity vec1 vec2 =
     (if length vec1 \<noteq> length vec2 then 0
      else (case cosine_loop vec1 vec2 (0, 0, 0) of
        (dotProduct, norm1, norm2) \<Rightarrow>
          (let magnitude = sqrt norm1 * sqrt norm2
           in if magnitude > 0 then dotProduct / magnitude else 0)))"

subsection \<open>searchRules\<close>

text \<open>\<open>rule.embedding || []\<close>: a rule without embedding is compared as the empty vector.\<close>

definition embedding_or_empty :: "TheoryRule \<Rightarrow> number list" where
  "embedding_or_empty rule = (case embedding rule of None \<Rightarrow> [] | Some e \<Rightarrow> e)"

definition score_rules :: "TheoryRule list \<Rightarrow> number list \<Rightarrow> (TheoryRule \<times> number) list" where
  "score_rules rs queryEmbedding =
     map (\<lambda>rule. (rule, cosineSimilarity queryEmbedding (embedding_or_empty rule))) rs"

definition by_similarity_desc :: "('a \<times> number) \<Rightarrow> ('a \<times> number) \<Rightarrow> number" where
  "by_similarity_desc a b = snd b - snd a"

definition searchRules :: "MusicKnowledgeBase \<Rightarrow> number list \<Rightarrow> int \<Rightarrow> TheoryRule list" where
  "searchRules kb queryEmbedding topK =
     (let scored = score_rules (rules kb) queryEmbedding;
          sorted = js_sort by_similarity_desc scored
      in map (\<lambda>(rule, sim). rule\<lparr>similarity := Some sim\<rparr>) (js_slice sorted 0 topK))"

subsection \<open>searchRules on the object store\<close>

text \<open>
  The rules of the catalog are objects: \<open>this.rules\<close> holds references to them, and
  \<open>searchRules\<close> builds its result from new objects, \<open>{...item.rule, similarity}\<close>.
  The store is the list of all rule objects allocated so far, a reference is an index
  into it, and a new object goes to the end of the store.
\<close>

record knowledge_store =
  objects :: "TheoryRule list"
  rule_refs :: "nat list"

fun copy_with_similarity ::
  "(nat \<times> number) list \<Rightarrow> TheoryRule list \<Rightarrow> nat list \<times> TheoryRule list" where
  "copy_with_similarity [] store = ([], store)"
| "copy_with_similarity ((ref, sim) # items) store =
     (let copy = (store ! ref)\<lparr>similarity := Some sim\<rparr>;
          new_ref = length store;
          (refs, store') = copy_with_similarity items (store @ [copy])
      in (new_ref # refs, store'))"

definition searchRules_store ::
  "knowledge_store \<Rightarrow> number list \<Rightarrow> int \<Rightarrow> nat list \<times> knowledge_store" where
  "searchRules_store ks queryEmbedding topK =
     (let scored = map (\<lambda>ref. (ref, cosineSimilarity queryEmbedding
                                       (embedding_or_empty (objects ks ! ref)))) (rule_refs ks);
          sorted = js_sort by_similarity_desc scored;
          (refs, store') = copy_with_similarity (js_slice sorted 0 topK) (objects ks)
      in (refs, ks\<lparr>objects := store'\<rparr>))"

section \<open>TransformersAIService\<close>

text \<open>
  Modelled from the spec: the type declarations of \<open>@/types\<close> and of
  \<open>MusicAnalysisEngine\<close> (\<open>MusicStructure\<close>, \<open>MusicXMLData\<close>, \<open>EmotionFeatures\<close>,
  \<open>UserPreferences\<close>, \<open>VisualScheme\<close>, \<open>StructureRelationship\<close>) are not among the
  sources. The records below have the fields that the data model of the specification
  lists and that the service reads or writes. A \<open>Map\<close> is an association list.
\<close>

record Note =
  pitch :: string
  duration :: number

record Measure =
  measure_notes :: "Note list"

record MusicXMLData =
  measures :: "Measure list"

record MusicStructure =
  structure_id :: string
  level :: string
  startMeasure :: int
  endMeasure :: int
  structure_notes :: "Note list option"
  structure_confidence :: number

datatype relationship_type = Repeat | Similar | Contrast | Transition

record StructureRelationship =
  id1 :: string
  id2 :: string
  rel_type :: relationship_type
  rel_similarity :: number
  rel_description :: string

record analysis =
  structures :: "MusicStructure list"
  relationships :: "StructureRelationship list"

datatype speed = Fast | ModerateSpeed | Slow
datatype intensity = Strong | ModerateIntensity | Weak
datatype tension_level = Tense | Neutral | Relaxed






record SimilarityGroup =
  groupId :: string
  structureIds :: "string list"
  similarityScore :: number
  commonFeatures :: "string list"

text \<open>
  The embedding model is the external encoder: a call returns a vector or throws
  (\<open>None\<close>). The loading status only feeds the user interface and is left out.
\<close>

type_synonym encoder = "string \<Rightarrow> number list option"

record TransformersAIService =
  embeddingModel :: "encoder option"
  isModelLoaded :: bool
  knowledgeBase :: MusicKnowledgeBase
  lastAnalysis :: "analysis option"

definition new_TransformersAIService :: TransformersAIService where
  "new_TransformersAIService =
     \<lparr>embeddingModel = None, isModelLoaded = False,
      knowledgeBase = new_MusicKnowledgeBase, lastAnalysis = None\<rparr>"

text \<open>
  \<open>initializeModels\<close>: \<open>loaded\<close> is what loading the external encoder gives, \<open>None\<close>
  when the import or the pipeline fails.
\<close>

definition initializeModels :: "encoder option \<Rightarrow> TransformersAIService \<Rightarrow> TransformersAIService" where
  "initializeModels loaded this =
     (if isModelLoaded this then this
      else this\<lparr>knowledgeBase := initialize (knowledgeBase this),
                embeddingModel := (case loaded of None \<Rightarrow> embeddingModel this | Some m \<Rightarrow> Some m),
                isModelLoaded := True\<rparr>)"

subsection \<open>generateEmbedding and cosineSimilarity\<close>

definition generateEmbedding :: "TransformersAIService \<Rightarrow> string \<Rightarrow> number list" where
  "generateEmbedding this text =
     (case embeddingModel this of
        None \<Rightarrow> generateFallbackEmbedding text
      | Some model \<Rightarrow>
          (case model text of
             Some output \<Rightarrow> output
           | None \<Rightarrow> generateFallbackEmbedding text))"

text \<open>The service has its own copy of \<open>cosineSimilarity\<close>, with the same body.\<close>

definition service_cosineSimilarity :: "number list \<Rightarrow> number list \<Rightarrow> number" where
  "service_cosineSimilarity vec1 vec2 =
     (if length vec1 \<noteq> length vec2 then 0
      else (case cosine_loop vec1 vec2 (0, 0, 0) of
        (dotProduct, norm1, norm2) \<Rightarrow>
          (let magnitude = sqrt norm1 * sqrt norm2
           in if magnitude > 0 then dotProduct / magnitude else 0)))"

subsection \<open>Numbers in template strings\<close>

definition digit_char :: "nat \<Rightarrow> char" where
  "digit_char d = char_of (48 + d)"

function show_nat :: "nat \<Rightarrow> string" where
  "show_nat n = (if n < 10 then [digit_char n] else show_nat (n div 10) @ [digit_char (n mod 10)])"
  by pat_completeness auto
termination
  by (relation "measure (\<lambda>n. n)") auto

definition show_int :: "int \<Rightarrow> string" where
  "show_int i = (if i < 0 then CHR ''-'' # show_nat (nat (- i)) else show_nat (nat i))"

subsection \<open>pitchToNumber\<close>

definition noteMap :: "char \<rightharpoonup> int" where
  "noteMap = map_of [(CHR ''C'', 0), (CHR ''D'', 2), (CHR ''E'', 4), (CHR ''F'', 5),
                     (CHR ''G'', 7), (CHR ''A'', 9), (CHR ''B'', 11)]"

definition isDigit :: "char \<Rightarrow> bool" where
  "isDigit c \<longleftrightarrow> 48 \<le> (of_char c :: nat) \<and> (of_char c :: nat) \<le> 57"

text \<open>
  \<open>pitch.match(/^([A-G])(#|b)?(\d+)?$/)\<close>: the three groups of a match, or \<open>None\<close>
  for \<open>null\<close>. A group that took no part in the match is \<open>None\<close> (\<open>undefined\<close>).
\<close>

definition match_pitch :: "string \<Rightarrow> (char \<times> char option \<times> string option) option" where
  "match_pitch p =
     (case p of
        [] \<Rightarrow> None
      | note # rest \<Rightarrow>
          if note \<notin> set ''ABCDEFG'' then None
          else (let (accidental, rest') =
                      (case rest of
                         [] \<Rightarrow> (None, [])
                       | a # r \<Rightarrow> if a = CHR ''#'' \<or> a = CHR ''b'' then (Some a, r) else (None, rest))
                in if rest' = [] then Some (note, accidental, None)
                   else if list_all isDigit rest' then Some (note, accidental, Some rest')
                   else None))"

definition parseInt :: "string \<Rightarrow> int" where
  "parseInt digits = foldl (\<lambda>n d. n * 10 + (int (of_char d) - 48)) 0 digits"

definition pitchToNumber :: "string \<Rightarrow> int" where
  "pitchToNumber p =
     (case match_pitch p of
        None \<Rightarrow> 60
      | Some (note, accidental, octave) \<Rightarrow>
          (let num = the (noteMap note) + parseInt (case octave of None \<Rightarrow> ''4'' | Some ds \<Rightarrow> ds) * 12;
               num = (if accidental = Some (CHR ''#'') then num + 1 else num);
               num = (if accidental = Some (CHR ''b'') then num - 1 else num)
           in num))"

subsection \<open>detectContour and detectRepetition\<close>

fun count_moves :: "int list \<Rightarrow> nat \<times> nat \<Rightarrow> nat \<times> nat" where
  "count_moves (previous # current # rest) (ascending, descending) =
     count_moves (current # rest)
       (if current > previous then (ascending + 1, descending)
        else if current < previous then (ascending, descending + 1)
        else (ascending, descending))"
| "count_moves _ acc = acc"

definition detectContour :: "string list \<Rightarrow> string" where
  "detectContour pitches =
     (if length pitches < 2 then ''stable''
      else (let pitchNumbers = map pitchToNumber pitches;
                (ascending, descending) = count_moves pitchNumbers (0, 0)
            in if real ascending > real descending * 1.5 then ''ascending''
               else if real descending > real ascending * 1.5 then ''descending''
               else ''wave''))"

fun join_comma :: "string list \<Rightarrow> string" where
  "join_comma [] = []"
| "join_comma [p] = p"
| "join_comma (p # ps) = p @ '','' @ join_comma ps"

text \<open>
  The inner loop of \<open>detectRepetition\<close>: \<open>i\<close> runs over \<open>0, patternLen, 2 * patternLen,
  ...\<close> up to \<open>pitches.length - patternLen\<close>; the function is only called with
  \<open>patternLen \<le> 4 \<le> pitches.length\<close>.
\<close>

definition pattern_count :: "string list \<Rightarrow> nat \<Rightarrow> nat" where
  "pattern_count pitches patternLen =
     (let pattern = join_comma (js_slice pitches 0 (int patternLen));
          starts = map (\<lambda>m. m * patternLen) [0..<Suc ((length pitches - patternLen) div patternLen)]
      in length (filter (\<lambda>i. join_comma (js_slice pitches (int i) (int (i + patternLen))) = pattern)
                   starts))"

definition detectRepetition :: "string list \<Rightarrow> bool" where
  "detectRepetition pitches =
     (if length pitches < 4 then False
      else pattern_count pitches 2 \<ge> 2 \<or> pattern_count pitches 3 \<ge> 2 \<or> pattern_count pitches 4 \<ge> 2)"

subsection \<open>generateStructureDescription\<close>

text \<open>
  \<open>durations.reduce((a, b) => a + b, 0) / durations.length || 1\<close>: the quotient is
  \<open>NaN\<close> for no notes, and both \<open>NaN\<close> and \<open>0\<close> are replaced by \<open>1\<close>.
\<close>

definition avgDuration :: "number list \<Rightarrow> number" where
  "avgDuration durations =
     (if length durations = 0 then 1
      else (let q = foldl (\<lambda>a b. a + b) 0 durations / real (length durations)
            in if q = 0 then 1 else q))"

definition generateStructureDescription :: "MusicStructure \<Rightarrow> MusicXMLData \<Rightarrow> string" where
  "generateStructureDescription structure musicData =
     (let ms = js_slice (measures musicData) (startMeasure structure - 1) (endMeasure structure);
          ns = concat (map measure_notes ms);
          pitches = map pitch ns;
          durations = map duration ns;
          avg = avgDuration durations;
          tempo = (if avg < 0.5 then ''fast'' else if avg > 1.5 then ''slow'' else ''moderate'');
          hasRepetition = detectRepetition pitches;
          contour = detectContour pitches
      in ''Musical phrase from measure '' @ show_int (startMeasure structure) @ '' to ''
           @ show_int (endMeasure structure) @ '', ''
           @ tempo @ '' tempo, '' @ contour @ '' melodic contour''
           @ (if hasRepetition then '', with repetitive patterns'' else ''''))"

subsection \<open>retrieveRelevantRules, calculateConfidence, enhanceStructuresWithKnowledge\<close>

definition retrieveRelevantRules :: "TransformersAIService \<Rightarrow> string \<Rightarrow> TheoryRule list" where
  "retrieveRelevantRules this query =
     (let queryEmbedding = generateEmbedding this query
      in searchRules (knowledgeBase this) queryEmbedding 5)"

text \<open>\<open>rule.similarity || 0.5\<close>: a similarity that is missing or \<open>0\<close> counts as \<open>0.5\<close>.\<close>

definition similarity_or_half :: "TheoryRule \<Rightarrow> number" where
  "similarity_or_half rule =
     (case similarity rule of None \<Rightarrow> 0.5 | Some s \<Rightarrow> if s = 0 then 0.5 else s)"

definition calculateConfidence :: "TheoryRule list \<Rightarrow> number" where
  "calculateConfidence rs =
     (if length rs = 0 then 0.5
      else (let totalWeight = foldl (\<lambda>sum rule. sum + similarity_or_half rule) 0 rs;
                avgSimilarity = totalWeight / real (length rs)
            in 0.5 + avgSimilarity * 0.5))"

definition enhanceStructuresWithKnowledge ::
  "TransformersAIService \<Rightarrow> MusicStructure list \<Rightarrow> MusicXMLData \<Rightarrow> MusicStructure list" where
  "enhanceStructuresWithKnowledge this ss musicData =
     map (\<lambda>structure.
            (let queryDesc = generateStructureDescription structure musicData;
                 relevantRules = retrieveRelevantRules this queryDesc;
                 confidence = calculateConfidence relevantRules
             in structure\<lparr>structure_confidence := confidence\<rparr>)) ss"

text \<open>
  \<open>analyzeMusicStructure\<close>: \<open>engine\<close> is the result of
  \<open>MusicAnalysisEngine.analyzeMusicStructure\<close>, which is not among the sources. The
  structures are enhanced in place, so the stored analysis holds the enhanced ones.
\<close>

definition analyzeMusicStructure ::
  "encoder option \<Rightarrow> analysis \<Rightarrow> TransformersAIService \<Rightarrow> MusicXMLData
     \<Rightarrow> MusicStructure list \<times> TransformersAIService" where
  "analyzeMusicStructure loaded engine this musicData =
     (let this = initializeModels loaded this;
          enhancedStructures = enhanceStructuresWithKnowledge this (structures engine) musicData
      in (enhancedStructures,
          this\<lparr>lastAnalysis := Some (engine\<lparr>structures := enhancedStructures\<rparr>)\<rparr>))"

subsection \<open>recommendVisuals\<close>









subsection \<open>identifyForm\<close>

definition joins :: "string \<Rightarrow> string \<Rightarrow> StructureRelationship \<Rightarrow> bool" where
  "joins a b r \<longleftrightarrow> (id1 r = a \<and> id2 r = b) \<or> (id2 r = a \<and> id1 r = b)"

definition identifyForm ::
  "encoder option \<Rightarrow> TransformersAIService \<Rightarrow> MusicStructure list
     \<Rightarrow> string \<times> TransformersAIService" where
  "identifyForm loaded this ss =
     (let this = initializeModels loaded this;
          structureCount = length ss;
          byRelationships =
            (case lastAnalysis this of
               None \<Rightarrow> None
             | Some a \<Rightarrow>
                 (let rels = relationships a;
                      repeatCount = length (filter (\<lambda>r. rel_type r = Repeat) rels);
                      contrastCount = length (filter (\<lambda>r. rel_type r = Contrast) rels)
                  in if repeatCount \<ge> 2 \<and> structureCount \<ge> 3 \<and>
                        (case find (joins (structure_id (ss ! 0)) (structure_id (ss ! (length ss - 1)))) rels of
                           Some firstLast \<Rightarrow> rel_type firstLast = Repeat
                         | None \<Rightarrow> False)
                       then Some ''Ternary Form (ABA)''
                     else if repeatCount \<ge> 3 \<and> structureCount \<ge> 5 then Some ''Rondo Form (ABACA)''
                     else if structureCount \<le> 4 \<and> contrastCount \<ge> 1 then Some ''Binary Form (AB)''
                     else if structureCount \<ge> 8 \<and> repeatCount \<ge> 2 \<and> contrastCount \<ge> 2
                       then Some ''Sonata Form''
                     else None))
      in (case byRelationships of
            Some form \<Rightarrow> form
          | None \<Rightarrow>
              if structureCount \<le> 2 then ''Binary Form (AB)''
              else if structureCount \<le> 4 then ''Ternary Form (ABA)''
              else if structureCount \<le> 6 then ''Rondo Form''
              else ''Through-composed Form'',
          this))"

subsection \<open>extractStructureFeatures\<close>

text \<open>
  \<open>energy\<close> is \<open>None\<close> where the source computes \<open>NaN\<close>: no notes over a span of zero
  measures. Notes over a span of zero measures have infinite density, which
  \<open>Math.min\<close> caps at \<open>1\<close>.
\<close>

record StructureFeatures =
  energy :: "number option"
  brightness :: number
  tension :: number

fun intervals_of :: "int list \<Rightarrow> int list" where
  "intervals_of (previous # current # rest) = \<bar>current - previous\<bar> # intervals_of (current # rest)"
| "intervals_of _ = []"

definition extractStructureFeatures :: "MusicStructure \<Rightarrow> StructureFeatures" where
  "extractStructureFeatures structure =
     (let ns = (case structure_notes structure of None \<Rightarrow> [] | Some l \<Rightarrow> l);
          measureCount = endMeasure structure - startMeasure structure + 1;
          pitches = map (\<lambda>n. pitchToNumber (pitch n)) ns;
          avgPitch = (if length pitches > 0
                      then real_of_int (foldl (\<lambda>a b. a + b) 0 pitches) / real (length pitches)
                      else 60);
          intervals = intervals_of pitches
      in \<lparr>energy = (if measureCount = 0 then (if length ns = 0 then None else Some 1)
                    else Some (min 1 (real (length ns) / real_of_int measureCount / 10))),
          brightness = min 1 (max 0 ((avgPitch - 48) / 36)),
          tension = (if length pitches > 1
                     then min 1 (real_of_int (foldl (\<lambda>a b. a + b) 0 intervals)
                                   / real (length intervals) / 12)
                     else 0.5)\<rparr>)"

subsection \<open>analyzeSimilarity\<close>

definition groupLabels :: "string list" where
  "groupLabels = [''A'', ''B'', ''C'', ''D'', ''E'']"

fun group_loop ::
  "StructureRelationship list \<Rightarrow> SimilarityGroup list \<times> string set \<times> nat
     \<Rightarrow> SimilarityGroup list \<times> string set \<times> nat" where
  "group_loop [] state = state"
| "group_loop (rel # rest) (groups, assigned, groupIndex) =
     (if id1 rel \<in> assigned \<and> id2 rel \<in> assigned then group_loop rest (groups, assigned, groupIndex)
      else (let label = groupLabels ! (groupIndex mod length groupLabels);
                (ids, assigned) = (if id1 rel \<notin> assigned
                                   then ([id1 rel], insert (id1 rel) assigned)
                                   else ([], assigned));
                (ids, assigned) = (if id2 rel \<notin> assigned
                                   then (ids @ [id2 rel], insert (id2 rel) assigned)
                                   else (ids, assigned))
            in if length ids > 0
               then group_loop rest
                      (groups @ [\<lparr>groupId = label, structureIds = ids,
                                  similarityScore = rel_similarity rel,
                                  commonFeatures = [rel_description rel]\<rparr>],
                       assigned, groupIndex + 1)
               else group_loop rest (groups, assigned, groupIndex)))"

definition groupByRelationships ::
  "MusicStructure list \<Rightarrow> StructureRelationship list \<Rightarrow> SimilarityGroup list" where
  "groupByRelationships ss rels =
     (let strongRelations =
            filter (\<lambda>r. rel_type r = Repeat \<or> (rel_type r = Similar \<and> rel_similarity r > 0.6)) rels
      in fst (group_loop strongRelations ([], {}, 0)))"

text \<open>
  \<open>Math.random()\<close> is the environment: \<open>random k\<close> is the value of its \<open>k\<close>-th call
  from now on, a number from \<open>0\<close> up to but not including \<open>1\<close>. The loop keeps count
  of the calls it has made.
\<close>

fun position_loop ::
  "(nat \<Rightarrow> number) \<Rightarrow> MusicStructure list \<Rightarrow> nat \<Rightarrow> nat list
     \<Rightarrow> SimilarityGroup list \<times> nat \<Rightarrow> SimilarityGroup list \<times> nat" where
  "position_loop random ss groupSize [] state = state"
| "position_loop random ss groupSize (i # rest) (groups, calls) =
     (let startIdx = i * groupSize;
          endIdx = min (startIdx + groupSize + 1) (length ss);
          groupStructures = js_slice ss (int startIdx) (int endIdx)
      in if length groupStructures \<ge> 2
         then position_loop random ss groupSize rest
                (groups @ [\<lparr>groupId = groupLabels ! i,
                            structureIds = map structure_id groupStructures,
                            similarityScore = 0.75 + random calls * 0.2,
                            commonFeatures = [''similar melodic contour'', ''parallel rhythmic pattern'']\<rparr>],
                 calls + 1)
         else position_loop random ss groupSize rest (groups, calls))"

definition groupByPosition :: "(nat \<Rightarrow> number) \<Rightarrow> MusicStructure list \<Rightarrow> SimilarityGroup list" where
  "groupByPosition random ss =
     (let groupSize = length ss div 3;
          iterations = takeWhile (\<lambda>i. real i < min 3 (real (length ss) / 2)) [0..<3]
      in fst (position_loop random ss groupSize iterations ([], 0)))"

definition analyzeSimilarity ::
  "encoder option \<Rightarrow> (nat \<Rightarrow> number) \<Rightarrow> TransformersAIService \<Rightarrow> MusicStructure list
     \<Rightarrow> SimilarityGroup list \<times> TransformersAIService" where
  "analyzeSimilarity loaded random this ss =
     (let this = initializeModels loaded this
      in (if length ss < 4 then []
          else (case lastAnalysis this of
                  Some a \<Rightarrow> groupByRelationships ss (relationships a)
                | None \<Rightarrow> groupByPosition random ss),
          this))"

section \<open>The claimed embedding\<close>

text \<open>
  The fallback embedding in the words of the specification: for each word at index
  \<open>i\<close> and each character at position \<open>j\<close> with code \<open>c\<close>, the weight \<open>1/(j+1)\<close>
  goes to dimension \<open>(c*(i+1)) mod 384\<close>; the 384 sums are divided by their Euclidean
  norm when it is positive.
\<close>

definition norm_sq :: "number list \<Rightarrow> number" where
  "norm_sq v = sum_list (map (\<lambda>x. x * x) v)"

definition raw_weight :: "string list \<Rightarrow> nat \<Rightarrow> number" where
  "raw_weight ws d =
     (\<Sum>(i, w) \<leftarrow> enumerate 0 ws. \<Sum>(j, ch) \<leftarrow> enumerate 0 w.
        if ((of_char ch :: nat) * (i + 1)) mod 384 = d then 1 / (real j + 1) else 0)"

definition claimed_embedding :: "string \<Rightarrow> number list" where
  "claimed_embedding text =
     (let raw = map (raw_weight (split_whitespace text)) [0..<384];
          magnitude = sqrt (norm_sq raw)
      in if magnitude > 0 then map (\<lambda>v. v / magnitude) raw else raw)"

section \<open>The pitch pattern and the position groups\<close>

text \<open>
  The pitch strings of the specification: a letter from A to G, an optional accidental
  \<open>#\<close> or \<open>b\<close>, an optional octave of decimal digits.
\<close>

definition pitch_pattern :: "string \<Rightarrow> bool" where
  "pitch_pattern p \<longleftrightarrow>
     (\<exists>l acc ds. l \<in> set ''ABCDEFG'' \<and> acc \<in> {[], ''#'', ''b''} \<and> list_all isDigit ds
        \<and> p = l # acc @ ds)"

text \<open>
  The group that the loop of \<open>groupByPosition\<close> builds in iteration \<open>i\<close> from the value
  \<open>r\<close> of \<open>Math.random()\<close>, the test under which it is kept, and the iterations that
  keep a group.
\<close>

definition position_group :: "MusicStructure list \<Rightarrow> nat \<Rightarrow> number \<Rightarrow> SimilarityGroup" where
  "position_group ss i r =
     \<lparr>groupId = groupLabels ! i,
      structureIds = map structure_id
        (js_slice ss (int (i * (length ss div 3)))
           (int (min (i * (length ss div 3) + length ss div 3 + 1) (length ss)))),
      similarityScore = 0.75 + r * 0.2,
      commonFeatures = [''similar melodic contour'', ''parallel rhythmic pattern'']\<rparr>"

definition position_ok :: "MusicStructure list \<Rightarrow> nat \<Rightarrow> bool" where
  "position_ok ss i \<longleftrightarrow>
     length (js_slice ss (int (i * (length ss div 3)))
           (int (min (i * (length ss div 3) + length ss div 3 + 1) (length ss)))) \<ge> 2"

definition position_iterations :: "MusicStructure list \<Rightarrow> nat list" where
  "position_iterations ss =
     filter (position_ok ss) (takeWhile (\<lambda>i. real i < min 3 (real (length ss) / 2)) [0..<3])"

section \<open>Example inputs\<close>

definition example_rule :: "string \<Rightarrow> number list \<Rightarrow> TheoryRule" where
  "example_rule name e =
     \<lparr>rule_id = name, rule_name = name, description = [], category = Melody,
      features = \<lparr>chordProgression = None, melodyContour = None, rhythmPattern = None\<rparr>,
      applicablePeriods = [], rule_confidence = 1, embedding = Some e, similarity = None\<rparr>"

definition example_kb :: MusicKnowledgeBase where
  "example_kb = \<lparr>rules = [example_rule ''a'' [1, 0], example_rule ''b'' [0, 1],
                         example_rule ''c'' [1, 0]],
                 isInitialized = True\<rparr>"

definition example_store :: knowledge_store where
  "example_store = \<lparr>objects = [example_rule ''a'' [1, 0], example_rule ''b'' [0, 1]],
                    rule_refs = [0, 1]\<rparr>"


definition example_structure :: "string \<Rightarrow> MusicStructure" where
  "example_structure name =
     \<lparr>structure_id = name, level = ''phrase'', startMeasure = 1, endMeasure = 2,
      structure_notes = None, structure_confidence = 0.5\<rparr>"

definition example_relationship ::
  "string \<Rightarrow> string \<Rightarrow> relationship_type \<Rightarrow> number \<Rightarrow> StructureRelationship" where
  "example_relationship a b t s =
     \<lparr>id1 = a, id2 = b, rel_type = t, rel_similarity = s, rel_description = ''compared''\<rparr>"

definition service_after_analysis ::
  "MusicStructure list \<Rightarrow> StructureRelationship list \<Rightarrow> TransformersAIService" where
  "service_after_analysis ss rels =
     new_TransformersAIService\<lparr>lastAnalysis := Some \<lparr>structures = ss, relationships = rels\<rparr>\<rparr>"

definition four_structures :: "MusicStructure list" where
  "four_structures = map example_structure [''S1'', ''S2'', ''S3'', ''S4'']"

text \<open>An encoder whose vectors have negative entries only.\<close>

definition negative_encoder :: encoder where
  "negative_encoder query = Some (replicate 384 (- 1))"

definition random_low :: "nat \<Rightarrow> number" where
  "random_low k = 0"

definition random_mid :: "nat \<Rightarrow> number" where
  "random_mid k = 0.5"

definition malformed_structure :: MusicStructure where
  "malformed_structure =
     \<lparr>structure_id = ''S1'', level = ''motive'', startMeasure = 1, endMeasure = 1,
      structure_notes = Some [\<lparr>pitch = ''H2'', duration = 1\<rparr>, \<lparr>pitch = ''do'', duration = 1\<rparr>],
      structure_confidence = 0.5\<rparr>"

section \<open>Arrays, cosine similarity and sorting\<close>

lemma cosine_loop_sums:
  "length xs = length ys \<Longrightarrow>
   cosine_loop xs ys (d, a, b) =
     (d + sum_list (map2 (*) xs ys), a + norm_sq xs, b + norm_sq ys)"
proof (induction xs ys arbitrary: d a b rule: list_induct2)
  case Nil
  then show ?case by (simp add: norm_sq_def)
next
  case (Cons x xs y ys)
  then show ?case by (simp add: norm_sq_def algebra_simps)
qed

lemma cosineSimilarity_eq:
  "length v1 = length v2 \<Longrightarrow>
   cosineSimilarity v1 v2 =
     (if sqrt (norm_sq v1) * sqrt (norm_sq v2) > 0
      then sum_list (map2 (*) v1 v2) / (sqrt (norm_sq v1) * sqrt (norm_sq v2)) else 0)"
  by (simp add: cosineSimilarity_def cosine_loop_sums Let_def)

lemma cosineSimilarity_degenerate:
  "norm_sq v1 = 0 \<or> norm_sq v2 = 0 \<or> length v1 \<noteq> length v2 \<Longrightarrow> cosineSimilarity v1 v2 = 0"
proof (cases "length v1 = length v2")
  case True
  assume "norm_sq v1 = 0 \<or> norm_sq v2 = 0 \<or> length v1 \<noteq> length v2"
  with True have "sqrt (norm_sq v1) * sqrt (norm_sq v2) = 0" by auto
  with True show ?thesis by (simp add: cosineSimilarity_eq)
next
  case False
  then show ?thesis by (simp add: cosineSimilarity_def)
qed

lemma js_insert_insort:
  "js_insert by_similarity_desc a bs = insort_key (\<lambda>p. - snd p) a bs"
  by (induction bs) (auto simp: by_similarity_desc_def)

lemma js_sort_sort_key:
  "js_sort by_similarity_desc xs = sort_key (\<lambda>p. - snd p) xs"
  by (induction xs) (simp_all add: js_sort_def js_insert_insort)


lemma js_slice_subset: "set (js_slice xs a b) \<subseteq> set xs"
  unfolding js_slice_def Let_def
  by (meson set_take_subset set_drop_subset subset_trans)

lemma service_cosineSimilarity_eq: "service_cosineSimilarity = cosineSimilarity"
  by (intro ext) (simp add: service_cosineSimilarity_def cosineSimilarity_def)

lemma insort_key_score:
  "insort_key (\<lambda>p. - snd p) (r, g r) (map (\<lambda>r. (r, g r)) rs) =
   map (\<lambda>r. (r, g r)) (insort_key (\<lambda>r. - g r) r rs)"
  by (induction rs) simp_all

lemma sort_key_score:
  "sort_key (\<lambda>p. - snd p) (map (\<lambda>r. (r, g r)) rs) =
   map (\<lambda>r. (r, g r)) (sort_key (\<lambda>r. - g r) rs)"
  by (induction rs) (simp_all add: insort_key_score)

lemma js_slice_map: "js_slice (map f xs) a b = map f (js_slice xs a b)"
  by (simp add: js_slice_def Let_def take_map drop_map)

lemma length_js_slice_0: "length (js_slice xs 0 k) = js_index k (length xs)"
  by (auto simp: js_slice_def js_index_def Let_def)

lemma searchRules_sort_key:
  "searchRules kb q k =
     map (\<lambda>r. r\<lparr>similarity := Some (cosineSimilarity q (embedding_or_empty r))\<rparr>)
       (js_slice (sort_key (\<lambda>r. - cosineSimilarity q (embedding_or_empty r)) (rules kb)) 0 k)"
  by (simp add: searchRules_def score_rules_def js_sort_sort_key sort_key_score js_slice_map
      Let_def comp_def)

lemma length_searchRules: "length (searchRules kb q k) = js_index k (length (rules kb))"
  by (simp add: searchRules_sort_key length_js_slice_0)

lemma searchRules_similarity:
  assumes "r \<in> set (searchRules kb q k)"
  shows "\<exists>c\<in>set (rules kb). r = c\<lparr>similarity := Some (cosineSimilarity q (embedding_or_empty c))\<rparr>"
proof -
  from assms obtain c where
    c: "c \<in> set (js_slice (sort_key (\<lambda>r. - cosineSimilarity q (embedding_or_empty r)) (rules kb)) 0 k)"
    and r: "r = c\<lparr>similarity := Some (cosineSimilarity q (embedding_or_empty c))\<rparr>"
    by (auto simp: searchRules_sort_key)
  from c have "c \<in> set (sort_key (\<lambda>r. - cosineSimilarity q (embedding_or_empty r)) (rules kb))"
    using js_slice_subset [of "sort_key (\<lambda>r. - cosineSimilarity q (embedding_or_empty r)) (rules kb)" 0 k]
    by auto
  then have "c \<in> set (rules kb)" by simp
  with r show ?thesis by blast
qed


lemma cos_examples:
  "cosineSimilarity [1, 0] [1, 0] = 1" "cosineSimilarity [1, 0] [0, 1] = 0"
  by (simp_all add: cosineSimilarity_def)


lemma length_createTheoryRules: "length createTheoryRules = 30"
  by (simp add: createTheoryRules_def)

lemma length_initialized_rules:
  "length (rules (initialize new_MusicKnowledgeBase)) = 30"
  by (simp add: initialize_def new_MusicKnowledgeBase_def length_createTheoryRules)

section \<open>Ranking of searchRules\<close>




section \<open>Degenerate vectors\<close>

text \<open>
  Claim C7: the cosine similarity of two vectors is \<open>0\<close> whenever one of them has norm
  zero or their lengths differ, for both copies of the function; for a query of norm
  zero \<open>searchRules\<close> scores every rule of the catalog with \<open>0\<close>, and every rule it
  returns carries the similarity \<open>0\<close>.
\<close>

theorem cosineSimilarity_zero:
  "(norm_sq vec1 = 0 \<or> norm_sq vec2 = 0 \<or> length vec1 \<noteq> length vec2
      \<longrightarrow> cosineSimilarity vec1 vec2 = 0 \<and> service_cosineSimilarity vec1 vec2 = 0)
   \<and> (norm_sq q = 0 \<longrightarrow>
        map snd (score_rules (rules kb) q) = replicate (length (rules kb)) 0
        \<and> (\<forall>r\<in>set (searchRules kb q k). similarity r = Some 0))"
proof -
  have "map snd (score_rules (rules kb) q) = replicate (length (rules kb)) 0" if "norm_sq q = 0"
    using that by (simp add: score_rules_def comp_def cosineSimilarity_degenerate map_replicate_const)
  moreover
  have "similarity r = Some 0" if "norm_sq q = 0" "r \<in> set (searchRules kb q k)" for r
  proof -
    from searchRules_similarity [OF that(2)] obtain c
      where "r = c\<lparr>similarity := Some (cosineSimilarity q (embedding_or_empty c))\<rparr>" by blast
    then show ?thesis using that(1) by (simp add: cosineSimilarity_degenerate)
  qed
  ultimately show ?thesis
    by (auto simp: service_cosineSimilarity_eq cosineSimilarity_degenerate)
qed

theorem cosineSimilarity_zero_witness:
  "norm_sq [0, 0] = 0
   \<and> cosineSimilarity [0, 0] [3, 4] = 0 \<and> service_cosineSimilarity [0, 0] [3, 4] = 0
   \<and> cosineSimilarity [1, 2] [3] = 0
   \<and> length (searchRules example_kb [0, 0] 2) = 2
   \<and> list_all (\<lambda>r. similarity r = Some 0) (searchRules example_kb [0, 0] 2)"
  using cosineSimilarity_zero [of "[0, 0]" "[3, 4]" "[0, 0]" example_kb 2]
    cosineSimilarity_zero [of "[1, 2]" "[3]" "[0, 0]" example_kb 2]
    length_searchRules [of example_kb "[0, 0]" 2]
  by (auto simp: norm_sq_def example_kb_def js_index_def list_all_iff)

section \<open>The fallback embedding\<close>

lemma foldl_sq: "foldl (\<lambda>sum val. sum + val * val) a xs = a + norm_sq xs"
  by (induction xs arbitrary: a) (simp_all add: norm_sq_def)

lemma add_word_length [simp]: "length (add_word idx w i e) = length e"
  by (induction w arbitrary: i e) (simp_all add: Let_def)

lemma add_words_length [simp]: "length (add_words ws idx e) = length e"
  by (induction ws arbitrary: idx e) simp_all

lemma add_word_nth:
  "d < length e \<Longrightarrow> length e = 384 \<Longrightarrow>
   add_word idx w i e ! d =
     e ! d + (\<Sum>(j, ch) \<leftarrow> enumerate i w.
        if ((of_char ch :: nat) * (idx + 1)) mod 384 = d then 1 / (real j + 1) else 0)"
proof (induction w arbitrary: i e)
  case Nil
  then show ?case by simp
next
  case (Cons ch rest)
  let ?p = "((of_char ch :: nat) * (idx + 1)) mod 384"
  let ?e' = "e[?p := e ! ?p + 1 / (real i + 1)]"
  have len: "d < length ?e'" "length ?e' = 384" using Cons.prems by simp_all
  have "add_word idx (ch # rest) i e ! d = add_word idx rest (Suc i) ?e' ! d"
    by (simp add: Let_def)
  also have "\<dots> = ?e' ! d + (\<Sum>(j, ch) \<leftarrow> enumerate (Suc i) rest.
        if ((of_char ch :: nat) * (idx + 1)) mod 384 = d then 1 / (real j + 1) else 0)"
    using Cons.IH [OF len] .
  also have "?e' ! d = e ! d + (if ?p = d then 1 / (real i + 1) else 0)"
    using Cons.prems by (simp add: nth_list_update)
  finally show ?case by simp
qed

lemma add_words_nth:
  "d < length e \<Longrightarrow> length e = 384 \<Longrightarrow>
   add_words ws idx e ! d =
     e ! d + (\<Sum>(i, w) \<leftarrow> enumerate idx ws. \<Sum>(j, ch) \<leftarrow> enumerate 0 w.
        if ((of_char ch :: nat) * (i + 1)) mod 384 = d then 1 / (real j + 1) else 0)"
proof (induction ws arbitrary: idx e)
  case Nil
  then show ?case by simp
next
  case (Cons w ws)
  have len: "d < length (add_word idx w 0 e)" "length (add_word idx w 0 e) = 384"
    using Cons.prems by simp_all
  show ?case
    using Cons.IH [OF len] add_word_nth [OF Cons.prems, of idx w 0]
    by simp
qed

lemma add_words_raw:
  "add_words ws 0 (replicate 384 0) = map (raw_weight ws) [0..<384]"
proof (rule nth_equalityI)
  show "length (add_words ws 0 (replicate 384 0)) = length (map (raw_weight ws) [0..<384])"
    by simp
next
  fix d assume "d < length (add_words ws 0 (replicate 384 0))"
  then have d: "d < 384" by simp
  then show "add_words ws 0 (replicate 384 0) ! d = map (raw_weight ws) [0..<384] ! d"
    using add_words_nth [of d "replicate 384 0" ws 0]
    by (simp add: raw_weight_def del: upt_Suc)
qed

lemma fallback_is_claimed_on_lower:
  "generateFallbackEmbedding text = claimed_embedding (toLowerCase text)"
  by (simp add: generateFallbackEmbedding_def claimed_embedding_def normalize_def
      add_words_raw foldl_sq Let_def del: upt_Suc)

lemma norm_sq_nonneg: "0 \<le> norm_sq v"
  unfolding norm_sq_def by (rule sum_list_nonneg) auto

lemma norm_sq_scale: "norm_sq (map (\<lambda>val. val / m) v) = norm_sq v / (m * m)"
  by (induction v) (simp_all add: norm_sq_def add_divide_distrib)

lemma normalize_unit:
  assumes "0 < norm_sq v"
  shows "sqrt (norm_sq (normalize v)) = 1"
proof -
  let ?m = "sqrt (norm_sq v)"
  have m: "0 < ?m" using assms by simp
  have mm: "?m * ?m = norm_sq v" using assms by simp
  have "normalize v = map (\<lambda>val. val / ?m) v"
    using m by (simp add: normalize_def foldl_sq Let_def)
  then have "norm_sq (normalize v) = norm_sq v / (?m * ?m)"
    by (simp add: norm_sq_scale)
  also have "\<dots> = 1" using assms mm by simp
  finally show ?thesis by simp
qed

lemma normalize_zero: "norm_sq v = 0 \<Longrightarrow> normalize v = v"
  by (simp add: normalize_def foldl_sq Let_def)

lemma normalize_length [simp]: "length (normalize v) = length v"
  by (simp add: normalize_def Let_def)

lemma term_le_sum_list:
  fixes f :: "'a \<Rightarrow> real"
  assumes "\<forall>x\<in>set xs. 0 \<le> f x" "y \<in> set xs"
  shows "f y \<le> (\<Sum>x\<leftarrow>xs. f x)"
  using assms
proof (induction xs)
  case Nil
  then show ?case by simp
next
  case (Cons a xs)
  have rest: "0 \<le> (\<Sum>x\<leftarrow>xs. f x)" using Cons.prems(1) by (intro sum_list_nonneg) auto
  show ?case
  proof (cases "y = a")
    case True
    then show ?thesis using rest by simp
  next
    case False
    then have "f y \<le> (\<Sum>x\<leftarrow>xs. f x)" using Cons by auto
    moreover have "0 \<le> f a" using Cons.prems(1) by simp
    ultimately show ?thesis by simp
  qed
qed

lemma isSpace_toLowerChar [simp]: "isSpace (toLowerChar c) \<longleftrightarrow> isSpace c"
proof -
  have "(of_char c :: nat) < 256" by simp
  then show ?thesis
    unfolding isSpace_def toLowerChar_def Let_def
    by (auto simp: take_bit_eq_mod)
qed

lemma dropWhile_has: "(\<exists>c\<in>set (dropWhile P cs). \<not> P c) \<longleftrightarrow> (\<exists>c\<in>set cs. \<not> P c)"
  by (induction cs) auto

lemma split_from_nonempty:
  "(\<exists>w\<in>set (split_from word cs). w \<noteq> []) \<longleftrightarrow> word \<noteq> [] \<or> (\<exists>c\<in>set cs. \<not> isSpace c)"
proof (induction word cs rule: split_from.induct)
  case (1 word)
  then show ?case by simp
next
  case (2 word c cs)
  show ?case
  proof (cases "isSpace c")
    case True
    then show ?thesis using 2(1) by (simp add: dropWhile_has)
  next
    case False
    then show ?thesis using 2(2) by auto
  qed
qed

lemma split_whitespace_nonempty:
  "(\<exists>w\<in>set (split_whitespace text). w \<noteq> []) \<longleftrightarrow> (\<exists>c\<in>set text. \<not> isSpace c)"
  by (simp add: split_whitespace_def split_from_nonempty)

lemma toLowerCase_has: "(\<exists>c\<in>set (toLowerCase text). \<not> isSpace c) \<longleftrightarrow> (\<exists>c\<in>set text. \<not> isSpace c)"
  by (simp add: toLowerCase_def)

lemma raw_weight_nonneg: "0 \<le> raw_weight ws d"
  unfolding raw_weight_def
  by (intro sum_list_nonneg) (auto intro!: sum_list_nonneg)

lemma raw_weight_hit:
  assumes "i < length ws" "ws ! i = ch # rest"
  shows "1 \<le> raw_weight ws (((of_char ch :: nat) * (i + 1)) mod 384)"
proof -
  let ?d = "((of_char ch :: nat) * (i + 1)) mod 384"
  let ?g = "\<lambda>(i::nat) (p :: nat \<times> char). case p of (j, c) \<Rightarrow>
        if ((of_char c :: nat) * (i + 1)) mod 384 = ?d then 1 / (real j + 1) else (0::real)"
  let ?f = "\<lambda>p :: nat \<times> string. case p of (i, w) \<Rightarrow> (\<Sum>q \<leftarrow> enumerate 0 w. ?g i q)"
  have inner_nonneg: "\<forall>q\<in>set (enumerate 0 (ws ! i)). 0 \<le> ?g i q" by auto
  have "(0, ch) \<in> set (enumerate 0 (ws ! i))" using assms(2) by simp
  from term_le_sum_list [OF inner_nonneg this]
  have inner: "1 \<le> ?f (i, ws ! i)" by simp
  have outer_nonneg: "\<forall>p\<in>set (enumerate 0 ws). 0 \<le> ?f p"
    by (auto intro!: sum_list_nonneg)
  have "(i, ws ! i) \<in> set (enumerate 0 ws)" using assms(1) by (simp add: in_set_enumerate_eq)
  from term_le_sum_list [OF outer_nonneg this]
  have "?f (i, ws ! i) \<le> (\<Sum>p \<leftarrow> enumerate 0 ws. ?f p)" .
  with inner show ?thesis unfolding raw_weight_def by simp
qed

lemma raw_positive_norm:
  assumes "0 < raw_weight ws d" "d < 384"
  shows "0 < norm_sq (map (raw_weight ws) [0..<384])"
proof -
  let ?v = "map (raw_weight ws) [0..<384]"
  have "\<forall>x\<in>set ?v. 0 \<le> x * x" by simp
  moreover have "raw_weight ws d \<in> set ?v" using assms(2) by (simp del: upt_Suc)
  ultimately have "raw_weight ws d * raw_weight ws d \<le> (\<Sum>x\<leftarrow>?v. x * x)"
    by (rule term_le_sum_list)
  moreover have "0 < raw_weight ws d * raw_weight ws d" using assms(1) by simp
  ultimately show ?thesis unfolding norm_sq_def by linarith
qed

lemma nonempty_word_norm:
  assumes "\<exists>w\<in>set ws. w \<noteq> []"
  shows "0 < norm_sq (map (raw_weight ws) [0..<384])"
proof -
  from assms obtain i where i: "i < length ws" "ws ! i \<noteq> []"
    by (auto simp: in_set_conv_nth)
  then obtain ch rest where "ws ! i = ch # rest" by (cases "ws ! i") auto
  from raw_weight_hit [OF i(1) this]
  have "0 < raw_weight ws (((of_char ch :: nat) * (i + 1)) mod 384)" by linarith
  then show ?thesis by (rule raw_positive_norm) simp
qed

lemma empty_words_raw:
  assumes "\<forall>w\<in>set ws. w = []"
  shows "raw_weight ws d = 0"
proof -
  have "(case p of (i, w) \<Rightarrow> \<Sum>(j, ch) \<leftarrow> enumerate 0 w.
        if ((of_char ch :: nat) * (i + 1)) mod 384 = d then 1 / (real j + 1) else 0) = (0::real)"
    if "p \<in> set (enumerate 0 ws)" for p
  proof -
    obtain i w where p: "p = (i, w)" by (cases p)
    with that have "w \<in> set ws" by (auto simp: in_set_enumerate_eq)
    with assms have "w = []" by simp
    with p show ?thesis by simp
  qed
  then have "map (\<lambda>(i, w). \<Sum>(j, ch) \<leftarrow> enumerate 0 w.
        if ((of_char ch :: nat) * (i + 1)) mod 384 = d then 1 / (real j + 1) else 0) (enumerate 0 ws)
     = map (\<lambda>p. 0::real) (enumerate 0 ws)"
    by (intro map_cong) auto
  then show ?thesis unfolding raw_weight_def by (simp only: sum_list_0)
qed

lemma claimed_embedding_unit:
  assumes "\<exists>c\<in>set text. \<not> isSpace c"
  shows "sqrt (norm_sq (claimed_embedding text)) = 1"
proof -
  let ?raw = "map (raw_weight (split_whitespace text)) [0..<384]"
  have pos: "0 < norm_sq ?raw"
    using assms by (intro nonempty_word_norm) (simp add: split_whitespace_nonempty)
  have "claimed_embedding text = normalize ?raw"
    by (simp add: claimed_embedding_def normalize_def foldl_sq Let_def del: upt_Suc)
  then show ?thesis using normalize_unit [OF pos] by simp
qed

lemma claimed_embedding_zero:
  assumes "\<forall>c\<in>set text. isSpace c"
  shows "claimed_embedding text = replicate 384 0"
proof -
  have "\<forall>w\<in>set (split_whitespace text). w = []"
    using assms split_whitespace_nonempty [of "text"] by blast
  then have "raw_weight (split_whitespace text) = (\<lambda>d. 0)"
    by (intro ext empty_words_raw)
  then have raw_eq: "map (raw_weight (split_whitespace text)) [0..<384] = replicate 384 0"
    by (simp only: map_replicate_const length_upt) simp
  show ?thesis
    unfolding claimed_embedding_def raw_eq by (simp add: norm_sq_def Let_def)
qed

lemma claimed_embedding_length [simp]: "length (claimed_embedding text) = 384"
  by (simp add: claimed_embedding_def Let_def del: upt_Suc)

lemma claimed_embedding_nth:
  "d < 384 \<Longrightarrow> claimed_embedding text ! d =
     (let r = raw_weight (split_whitespace text) d;
          m = sqrt (norm_sq (map (raw_weight (split_whitespace text)) [0..<384]))
      in if m > 0 then r / m else r)"
  by (simp add: claimed_embedding_def Let_def del: upt_Suc)

lemma simple_is_fallback: "generateSimpleEmbedding text = generateFallbackEmbedding text"
  by (simp add: generateSimpleEmbedding_def generateFallbackEmbedding_def)

text \<open>
  Claim C2, with the words taken from the lower-cased text: without the primary encoder,
  or when its call fails, \<open>generateEmbedding\<close> returns the fallback vector, which depends
  on the text alone and is the same in the knowledge base and in the service. It is the
  claimed embedding of the lower-cased text and has 384 entries. Its norm is 1 for a
  text with a character that is not white space, and it is the zero vector for a text
  of white space only, the empty text included.
\<close>

theorem fallback_embedding:
  "(embeddingModel this = None \<or> (\<exists>m. embeddingModel this = Some m \<and> m text = None)
      \<longrightarrow> generateEmbedding this text = generateFallbackEmbedding text)
   \<and> generateSimpleEmbedding text = generateFallbackEmbedding text
   \<and> generateFallbackEmbedding text = claimed_embedding (toLowerCase text)
   \<and> length (generateFallbackEmbedding text) = 384
   \<and> ((\<exists>c\<in>set text. \<not> isSpace c)
        \<longrightarrow> sqrt (norm_sq (generateFallbackEmbedding text)) = 1
          \<and> \<bar>sqrt (norm_sq (generateFallbackEmbedding text)) - 1\<bar> \<le> 1 / 10 ^ 6)
   \<and> ((\<forall>c\<in>set text. isSpace c) \<longrightarrow> generateFallbackEmbedding text = replicate 384 0)"
proof -
  have a: "embeddingModel this = None \<or> (\<exists>m. embeddingModel this = Some m \<and> m text = None)
      \<longrightarrow> generateEmbedding this text = generateFallbackEmbedding text"
    by (auto simp: generateEmbedding_def)
  have b: "generateFallbackEmbedding text = claimed_embedding (toLowerCase text)"
    by (rule fallback_is_claimed_on_lower)
  have c: "(\<exists>c\<in>set text. \<not> isSpace c) \<longrightarrow> sqrt (norm_sq (generateFallbackEmbedding text)) = 1"
    unfolding b using claimed_embedding_unit [of "toLowerCase text"] by (simp add: toLowerCase_has)
  have d: "(\<forall>c\<in>set text. isSpace c) \<longrightarrow> generateFallbackEmbedding text = replicate 384 0"
    unfolding b using claimed_embedding_zero [of "toLowerCase text"] by (simp add: toLowerCase_def)
  show ?thesis using a b c d simple_is_fallback by simp
qed

theorem fallback_embedding_witness:
  "embeddingModel new_TransformersAIService = None
   \<and> generateEmbedding new_TransformersAIService ''cadence'' = generateFallbackEmbedding ''cadence''
   \<and> (\<exists>c\<in>set ''cadence''. \<not> isSpace c)
   \<and> sqrt (norm_sq (generateFallbackEmbedding ''cadence'')) = 1
   \<and> list_all isSpace '' ''
   \<and> generateFallbackEmbedding '' '' = replicate 384 0"
proof -
  have m: "embeddingModel new_TransformersAIService = None"
    by (simp add: new_TransformersAIService_def)
  have h1: "\<exists>c\<in>set ''cadence''. \<not> isSpace c" by (simp add: isSpace_def)
  have h2: "\<forall>c\<in>set '' ''. isSpace c" by (simp add: isSpace_def)
  from fallback_embedding [of new_TransformersAIService "''cadence''"] m h1
  have a: "generateEmbedding new_TransformersAIService ''cadence'' = generateFallbackEmbedding ''cadence''
      \<and> sqrt (norm_sq (generateFallbackEmbedding ''cadence'')) = 1"
    by blast
  from fallback_embedding [of new_TransformersAIService "'' ''"] h2
  have b: "generateFallbackEmbedding '' '' = replicate 384 0"
    by blast
  from m h1 h2 a b show ?thesis by (simp add: list_all_iff)
qed

lemma split_A: "split_whitespace ''A'' = [''A'']" "split_whitespace ''a'' = [''a'']"
  by (simp_all add: split_whitespace_def isSpace_def)

text \<open>
  The claim as stated takes the character codes from the text itself. The service
  lower-cases the text first, so for the text \<open>A\<close> dimension 65 stays empty, where the
  claimed embedding of \<open>A\<close> has its weight.
\<close>

theorem fallback_embedding_counterexample:
  "generateFallbackEmbedding ''A'' ! 65 = 0 \<and> 0 < claimed_embedding ''A'' ! 65
   \<and> generateFallbackEmbedding ''A'' \<noteq> claimed_embedding ''A''"
proof -
  have low: "toLowerCase ''A'' = ''a''"
    by (simp add: toLowerCase_def toLowerChar_def char_of_def bit_0)
  have ra: "raw_weight [''a''] 65 = 0" by (simp add: raw_weight_def)
  have rA: "raw_weight [''A''] 65 = 1" by (simp add: raw_weight_def)
  have 1: "generateFallbackEmbedding ''A'' ! 65 = 0"
    by (simp add: fallback_is_claimed_on_lower low claimed_embedding_nth split_A ra Let_def del: upt_Suc)
  have "0 < norm_sq (map (raw_weight [''A'']) [0..<384])"
    by (rule raw_positive_norm [of _ 65]) (simp_all add: rA)
  then have 2: "0 < claimed_embedding ''A'' ! 65"
    by (simp add: claimed_embedding_nth split_A rA Let_def del: upt_Suc)
  from 1 2 show ?thesis by auto
qed

section \<open>The catalog after searchRules\<close>

lemma copy_with_similarity_eq:
  "\<forall>p\<in>set items. fst p < length store \<Longrightarrow>
   copy_with_similarity items store =
     ([length store..<length store + length items],
      store @ map (\<lambda>(ref, sim). (store ! ref)\<lparr>similarity := Some sim\<rparr>) items)"
proof (induction items arbitrary: store)
  case Nil
  then show ?case by simp
next
  case (Cons p items)
  obtain ref sim where p: "p = (ref, sim)" by (cases p)
  let ?copy = "(store ! ref)\<lparr>similarity := Some sim\<rparr>"
  have ref: "ref < length store" using Cons.prems p by simp
  have bound: "\<forall>p\<in>set items. fst p < length (store @ [?copy])"
    using Cons.prems by auto
  have same: "map (\<lambda>(ref, sim). ((store @ [?copy]) ! ref)\<lparr>similarity := Some sim\<rparr>) items
      = map (\<lambda>(ref, sim). (store ! ref)\<lparr>similarity := Some sim\<rparr>) items"
    using Cons.prems by (intro map_cong) (auto simp: nth_append)
  have upt: "[length store..<length store + length (p # items)]
      = length store # [length (store @ [?copy])..<length (store @ [?copy]) + length items]"
    by (simp add: upt_conv_Cons del: upt_Suc)
  have "copy_with_similarity (p # items) store =
      (length store # fst (copy_with_similarity items (store @ [?copy])),
       snd (copy_with_similarity items (store @ [?copy])))"
    by (simp add: p Let_def split: prod.splits)
  also have "\<dots> = (length store # [length (store @ [?copy])..<length (store @ [?copy]) + length items],
       (store @ [?copy]) @ map (\<lambda>(ref, sim). (store ! ref)\<lparr>similarity := Some sim\<rparr>) items)"
    by (simp only: Cons.IH [OF bound] same fst_conv snd_conv)
  finally show ?case
    by (simp only: upt) (simp add: p)
qed

lemma js_insert_deref:
  "js_insert by_similarity_desc (f a, s) (map (\<lambda>(a, s). (f a, s)) xs) =
   map (\<lambda>(a, s). (f a, s)) (js_insert by_similarity_desc (a, s) xs)"
  by (induction xs) (auto simp: by_similarity_desc_def)

lemma js_sort_deref:
  "js_sort by_similarity_desc (map (\<lambda>(a, s). (f a, s)) xs) =
   map (\<lambda>(a, s). (f a, s)) (js_sort by_similarity_desc xs)"
proof (induction xs)
  case Nil
  then show ?case by (simp add: js_sort_def)
next
  case (Cons p xs)
  obtain a s where "p = (a, s)" by (cases p)
  with Cons show ?case
    by (simp add: js_sort_def js_insert_deref)
qed

lemma set_js_insert: "set (js_insert c a xs) = insert a (set xs)"
  by (induction xs) auto

lemma set_js_sort: "set (js_sort c xs) = set xs"
  by (induction xs) (simp_all add: js_sort_def set_js_insert)

text \<open>
  Claim C8: in a store without dangling references, \<open>searchRules\<close> leaves \<open>this.rules\<close>
  and every object that existed before the call as they were, so every rule of the
  catalog keeps all its fields, embedding and similarity included. The references it
  returns are new objects, none of them a rule of the catalog, and these copies are the
  results of \<open>searchRules\<close>, which carry the computed similarity.
\<close>

theorem searchRules_store_frame:
  assumes "\<forall>ref\<in>set (rule_refs ks). ref < length (objects ks)"
  shows "(case searchRules_store ks q k of (refs, ks') \<Rightarrow>
      rule_refs ks' = rule_refs ks
    \<and> take (length (objects ks)) (objects ks') = objects ks
    \<and> (\<forall>ref\<in>set (rule_refs ks). objects ks' ! ref = objects ks ! ref)
    \<and> (\<forall>ref\<in>set refs. length (objects ks) \<le> ref \<and> ref < length (objects ks')
          \<and> ref \<notin> set (rule_refs ks))
    \<and> map (\<lambda>ref. objects ks' ! ref) refs
        = searchRules \<lparr>rules = map (\<lambda>ref. objects ks ! ref) (rule_refs ks), isInitialized = b\<rparr> q k)"
proof -
  let ?store = "objects ks"
  let ?sim = "\<lambda>r. cosineSimilarity q (embedding_or_empty r)"
  let ?scored = "map (\<lambda>ref. (ref, ?sim (?store ! ref))) (rule_refs ks)"
  let ?top = "js_slice (js_sort by_similarity_desc ?scored) 0 k"
  let ?copies = "map (\<lambda>(ref, sim). (?store ! ref)\<lparr>similarity := Some sim\<rparr>) ?top"
  have "set ?top \<subseteq> set ?scored"
    using js_slice_subset [of "js_sort by_similarity_desc ?scored" 0 k]
    by (simp add: set_js_sort)
  then have bound: "\<forall>p\<in>set ?top. fst p < length ?store"
    using assms by auto
  have res: "searchRules_store ks q k =
      ([length ?store..<length ?store + length ?top], ks\<lparr>objects := ?store @ ?copies\<rparr>)"
    by (simp add: searchRules_store_def copy_with_similarity_eq [OF bound] Let_def)
  have deref: "map (\<lambda>ref. (?store @ ?copies) ! ref) [length ?store..<length ?store + length ?top]
      = ?copies"
    by (rule nth_equalityI) (simp_all add: nth_append)
  have scored: "score_rules (map (\<lambda>ref. ?store ! ref) (rule_refs ks)) q
      = map (\<lambda>(ref, s). (?store ! ref, s)) ?scored"
    by (simp add: score_rules_def comp_def)
  have "searchRules \<lparr>rules = map (\<lambda>ref. ?store ! ref) (rule_refs ks), isInitialized = b\<rparr> q k
      = map (\<lambda>(rule, sim). rule\<lparr>similarity := Some sim\<rparr>)
          (js_slice (js_sort by_similarity_desc
             (score_rules (map (\<lambda>ref. ?store ! ref) (rule_refs ks)) q)) 0 k)"
    by (simp add: searchRules_def Let_def)
  also have "\<dots> = map (\<lambda>(rule, sim). rule\<lparr>similarity := Some sim\<rparr>)
          (map (\<lambda>(ref, s). (?store ! ref, s)) ?top)"
    by (simp only: scored js_sort_deref js_slice_map)
  also have "\<dots> = ?copies"
    by (simp add: comp_def case_prod_unfold)
  finally have link: "searchRules \<lparr>rules = map (\<lambda>ref. ?store ! ref) (rule_refs ks), isInitialized = b\<rparr> q k
      = ?copies" .
  have old: "\<forall>ref\<in>set (rule_refs ks). (?store @ ?copies) ! ref = ?store ! ref"
    using assms by (simp add: nth_append)
  have fresh: "\<forall>ref\<in>set [length ?store..<length ?store + length ?top].
      length ?store \<le> ref \<and> ref < length (?store @ ?copies) \<and> ref \<notin> set (rule_refs ks)"
    using assms by auto
  show ?thesis
    unfolding res using old fresh deref link by simp
qed

lemma example_store_search:
  "searchRules_store example_store [1, 0] 1 =
     ([2], example_store\<lparr>objects := objects example_store @
                             [(example_rule ''a'' [1, 0])\<lparr>similarity := Some 1\<rparr>]\<rparr>)"
  by (simp add: searchRules_store_def example_store_def example_rule_def embedding_or_empty_def
      cos_examples js_sort_def by_similarity_desc_def js_slice_def js_index_def Let_def)

theorem searchRules_store_frame_witness:
  "list_all (\<lambda>ref. ref < length (objects example_store)) (rule_refs example_store)
   \<and> fst (searchRules_store example_store [1, 0] 1) = [2]
   \<and> rule_refs (snd (searchRules_store example_store [1, 0] 1)) = [0, 1]
   \<and> take 2 (objects (snd (searchRules_store example_store [1, 0] 1))) = objects example_store
   \<and> map similarity (objects (snd (searchRules_store example_store [1, 0] 1)))
       = [None, None, Some 1]"
proof -
  have refs: "\<forall>ref\<in>set (rule_refs example_store). ref < length (objects example_store)"
    by (simp add: example_store_def)
  from searchRules_store_frame [OF refs, where q = "[1, 0]" and k = 1 and b = True]
  have "rule_refs (snd (searchRules_store example_store [1, 0] 1)) = rule_refs example_store
      \<and> take (length (objects example_store)) (objects (snd (searchRules_store example_store [1, 0] 1)))
          = objects example_store"
    by (simp add: case_prod_unfold)
  then show ?thesis
    using refs by (simp add: example_store_search list_all_iff) (simp add: example_store_def example_rule_def)
qed

section \<open>Confidence from the knowledge base\<close>





text \<open>
  The cosine similarity of two vectors can be negative, and \<open>calculateConfidence\<close> has
  no lower bound of its own: with an encoder whose vectors have negative entries only,
  every rule of the catalog has a negative similarity to every query, and the
  confidence is below \<open>0.5\<close>.
\<close>

lemma catalog_first_characters:
  "list_all (\<lambda>r. description r \<noteq> [] \<and> \<not> isSpace (hd (description r))) createTheoryRules"
  by (simp add: createTheoryRules_def isSpace_def)

lemma catalog_descriptions:
  "\<forall>r\<in>set createTheoryRules. \<exists>c\<in>set (description r). \<not> isSpace c"
proof
  fix r assume "r \<in> set createTheoryRules"
  with catalog_first_characters
  have "description r \<noteq> [] \<and> \<not> isSpace (hd (description r))"
    by (simp add: list_all_iff)
  then show "\<exists>c\<in>set (description r). \<not> isSpace c"
    using hd_in_set by blast
qed

lemma claimed_embedding_nonneg: "\<forall>x\<in>set (claimed_embedding t). 0 \<le> x"
  by (auto simp: claimed_embedding_def Let_def raw_weight_nonneg simp del: upt_Suc)

lemma dot_replicate:
  fixes c :: real
  shows "length e = n \<Longrightarrow> sum_list (map2 (*) (replicate n c) e) = c * sum_list e"
  by (induction e arbitrary: n) (auto simp: algebra_simps)

lemma norm_sq_replicate: "norm_sq (replicate n c) = real n * (c * c)"
  by (induction n) (simp_all add: norm_sq_def algebra_simps)

lemma sum_list_pos:
  fixes e :: "real list"
  assumes "\<forall>x\<in>set e. 0 \<le> x" "0 < norm_sq e"
  shows "0 < sum_list e"
proof -
  have "\<exists>x\<in>set e. x \<noteq> 0"
  proof (rule ccontr)
    assume "\<not> (\<exists>x\<in>set e. x \<noteq> 0)"
    then have "\<forall>x\<in>set e. x = 0" by blast
    then have "norm_sq e = 0" unfolding norm_sq_def by (induction e) auto
    with assms(2) show False by simp
  qed
  then obtain x where x: "x \<in> set e" "x \<noteq> 0" by blast
  with assms(1) have "0 < x" by force
  moreover have "x \<le> (\<Sum>y\<leftarrow>e. y)" using term_le_sum_list [of e "\<lambda>y. y" x] assms(1) x(1) by simp
  ultimately show ?thesis by simp
qed

lemma negative_query_similarity:
  assumes "\<exists>c\<in>set d. \<not> isSpace c"
  shows "cosineSimilarity (replicate 384 (- 1)) (generateSimpleEmbedding d) < 0"
proof -
  let ?e = "generateSimpleEmbedding d"
  have e: "?e = claimed_embedding (toLowerCase d)"
    by (simp add: simple_is_fallback fallback_is_claimed_on_lower)
  have len: "length ?e = 384" by (simp add: e)
  have unit: "sqrt (norm_sq ?e) = 1"
    unfolding e using assms by (intro claimed_embedding_unit) (simp add: toLowerCase_has)
  then have n1: "norm_sq ?e = 1" by simp
  have pos: "0 < sum_list ?e"
    using claimed_embedding_nonneg [of "toLowerCase d"] n1 by (intro sum_list_pos) (simp_all add: e)
  have nq: "0 < sqrt (norm_sq (replicate 384 (- 1 :: real)))"
    by (simp add: norm_sq_replicate)
  have "cosineSimilarity (replicate 384 (- 1)) ?e
      = sum_list (map2 (*) (replicate 384 (- 1)) ?e) / sqrt (norm_sq (replicate 384 (- 1)))"
    using nq by (simp add: cosineSimilarity_eq len unit)
  also have "\<dots> = - sum_list ?e / sqrt (norm_sq (replicate 384 (- 1)))"
    by (simp add: dot_replicate len)
  also have "\<dots> < 0" using pos nq by (simp add: divide_neg_pos)
  finally show ?thesis .
qed

lemma foldl_negative:
  "\<forall>r\<in>set rs. \<exists>s. similarity r = Some s \<and> s < 0 \<Longrightarrow> rs \<noteq> [] \<Longrightarrow> a \<le> 0 \<Longrightarrow>
   foldl (\<lambda>sum rule. sum + similarity_or_half rule) a rs < 0"
proof (induction rs arbitrary: a)
  case Nil
  then show ?case by simp
next
  case (Cons r rs)
  from Cons.prems(1) obtain s where s: "similarity r = Some s" "s < 0" by auto
  then have step: "a + similarity_or_half r < 0"
    using Cons.prems(3) by (simp add: similarity_or_half_def)
  show ?case
  proof (cases "rs = []")
    case True
    with step show ?thesis by simp
  next
    case False
    with Cons.IH [of "a + similarity_or_half r"] Cons.prems(1) step show ?thesis by simp
  qed
qed

lemma confidence_of_negative_similarity:
  "calculateConfidence
     (retrieveRelevantRules (initializeModels (Some negative_encoder) new_TransformersAIService) q)
     < 0.5"
proof -
  let ?svc = "initializeModels (Some negative_encoder) new_TransformersAIService"
  let ?found = "retrieveRelevantRules ?svc q"
  have kb: "knowledgeBase ?svc = initialize new_MusicKnowledgeBase"
    by (simp add: initializeModels_def new_TransformersAIService_def)
  have emb: "generateEmbedding ?svc q = replicate 384 (- 1)"
    by (simp add: generateEmbedding_def initializeModels_def new_TransformersAIService_def
        negative_encoder_def)
  have found: "?found = searchRules (initialize new_MusicKnowledgeBase) (replicate 384 (- 1)) 5"
    by (simp add: retrieveRelevantRules_def kb emb Let_def)
  have len: "length ?found = 5"
    by (simp add: found length_searchRules length_initialized_rules js_index_def)
  have neg: "\<forall>r\<in>set ?found. \<exists>s. similarity r = Some s \<and> s < 0"
  proof
    fix r assume "r \<in> set ?found"
    then obtain c where c: "c \<in> set (rules (initialize new_MusicKnowledgeBase))"
      and r: "r = c\<lparr>similarity := Some (cosineSimilarity (replicate 384 (- 1)) (embedding_or_empty c))\<rparr>"
      unfolding found using searchRules_similarity by blast
    from c obtain c0 where c0: "c0 \<in> set createTheoryRules"
      and cc: "c = c0\<lparr>embedding := Some (generateSimpleEmbedding (description c0))\<rparr>"
      by (auto simp: initialize_def new_MusicKnowledgeBase_def)
    from c0 catalog_descriptions have "\<exists>ch\<in>set (description c0). \<not> isSpace ch" by blast
    from negative_query_similarity [OF this]
    have "cosineSimilarity (replicate 384 (- 1)) (embedding_or_empty c) < 0"
      by (simp add: cc embedding_or_empty_def)
    with r show "\<exists>s. similarity r = Some s \<and> s < 0" by simp
  qed
  have ne: "?found \<noteq> []" using len by auto
  have "foldl (\<lambda>sum rule. sum + similarity_or_half rule) 0 ?found < 0"
    using neg ne by (intro foldl_negative) simp_all
  then show ?thesis
    using len by (simp add: calculateConfidence_def Let_def)
qed

section \<open>Shape of the recommendations\<close>

lemma lastAnalysis_initializeModels [simp]:
  "lastAnalysis (initializeModels loaded this) = lastAnalysis this"
  by (simp add: initializeModels_def)




section \<open>The binary scenario\<close>

lemma map_eq_3:
  assumes "map f xs = [a, b, c]"
  obtains x y z where "xs = [x, y, z]" "f x = a" "f y = b" "f z = c"
  using assms by (auto simp: map_eq_Cons_conv)

lemma map_eq_4:
  assumes "map f xs = [a, b, c, d]"
  obtains x y z w where "xs = [x, y, z, w]" "f x = a" "f y = b" "f z = c" "f w = d"
  using assms by (auto simp: map_eq_Cons_conv)

text \<open>
  Claim C5: four structures S1 to S4, and as the last analysis the relationships
  (S1, S2) repeat 0.9, (S2, S3) contrast 0.2 and (S3, S4) repeat 0.85, in this order.
  \<open>analyzeSimilarity\<close> returns two groups, A with S1 and S2, then B with S3 and S4,
  and \<open>identifyForm\<close> answers \<open>Binary Form (AB)\<close>.
\<close>

theorem binary_form_scenario:
  assumes "map structure_id ss = [''S1'', ''S2'', ''S3'', ''S4'']"
    and "lastAnalysis this = Some a"
    and "map (\<lambda>r. (id1 r, id2 r, rel_type r, rel_similarity r)) (relationships a)
          = [(''S1'', ''S2'', Repeat, 0.9), (''S2'', ''S3'', Contrast, 0.2),
             (''S3'', ''S4'', Repeat, 0.85)]"
  shows "map (\<lambda>g. (groupId g, structureIds g, similarityScore g))
           (fst (analyzeSimilarity loaded random this ss))
          = [(''A'', [''S1'', ''S2''], 0.9), (''B'', [''S3'', ''S4''], 0.85)]
       \<and> fst (identifyForm loaded this ss) = ''Binary Form (AB)''"
proof -
  from assms(1) obtain s1 s2 s3 s4 where ss: "ss = [s1, s2, s3, s4]"
    and ids: "structure_id s1 = ''S1''" "structure_id s2 = ''S2''"
      "structure_id s3 = ''S3''" "structure_id s4 = ''S4''"
    by (rule map_eq_4)
  from assms(3) obtain r1 r2 r3 where rels: "relationships a = [r1, r2, r3]"
    and r1: "(id1 r1, id2 r1, rel_type r1, rel_similarity r1) = (''S1'', ''S2'', Repeat, 0.9)"
    and r2: "(id1 r2, id2 r2, rel_type r2, rel_similarity r2) = (''S2'', ''S3'', Contrast, 0.2)"
    and r3: "(id1 r3, id2 r3, rel_type r3, rel_similarity r3) = (''S3'', ''S4'', Repeat, 0.85)"
    by (rule map_eq_3)
  have groups: "map (\<lambda>g. (groupId g, structureIds g, similarityScore g))
           (fst (analyzeSimilarity loaded random this ss))
          = [(''A'', [''S1'', ''S2''], 0.9), (''B'', [''S3'', ''S4''], 0.85)]"
    using r1 r2 r3
    by (simp add: analyzeSimilarity_def assms(2) ss rels groupByRelationships_def groupLabels_def
        Let_def)
  have form: "fst (identifyForm loaded this ss) = ''Binary Form (AB)''"
    using r1 r2 r3
    by (simp add: identifyForm_def assms(2) ss rels ids joins_def Let_def)
  from groups form show ?thesis by simp
qed

theorem binary_form_scenario_witness:
  "map (\<lambda>g. (groupId g, structureIds g, similarityScore g))
     (fst (analyzeSimilarity None (\<lambda>k. 0)
        (service_after_analysis (map example_structure [''S1'', ''S2'', ''S3'', ''S4''])
          [example_relationship ''S1'' ''S2'' Repeat 0.9, example_relationship ''S2'' ''S3'' Contrast 0.2,
           example_relationship ''S3'' ''S4'' Repeat 0.85])
        (map example_structure [''S1'', ''S2'', ''S3'', ''S4''])))
     = [(''A'', [''S1'', ''S2''], 0.9), (''B'', [''S3'', ''S4''], 0.85)]
   \<and> fst (identifyForm None
        (service_after_analysis (map example_structure [''S1'', ''S2'', ''S3'', ''S4''])
          [example_relationship ''S1'' ''S2'' Repeat 0.9, example_relationship ''S2'' ''S3'' Contrast 0.2,
           example_relationship ''S3'' ''S4'' Repeat 0.85])
        (map example_structure [''S1'', ''S2'', ''S3'', ''S4'']))
      = ''Binary Form (AB)''"
proof -
  let ?ss = "map example_structure [''S1'', ''S2'', ''S3'', ''S4'']"
  let ?rels = "[example_relationship ''S1'' ''S2'' Repeat 0.9, example_relationship ''S2'' ''S3'' Contrast 0.2,
           example_relationship ''S3'' ''S4'' Repeat 0.85]"
  let ?a = "\<lparr>structures = ?ss, relationships = ?rels\<rparr>"
  have 1: "map structure_id ?ss = [''S1'', ''S2'', ''S3'', ''S4'']"
    by (simp add: example_structure_def)
  have 2: "lastAnalysis (service_after_analysis ?ss ?rels) = Some ?a"
    by (simp add: service_after_analysis_def)
  have 3: "map (\<lambda>r. (id1 r, id2 r, rel_type r, rel_similarity r)) (relationships ?a)
          = [(''S1'', ''S2'', Repeat, 0.9), (''S2'', ''S3'', Contrast, 0.2),
             (''S3'', ''S4'', Repeat, 0.85)]"
    by (simp add: example_relationship_def)
  from binary_form_scenario [OF 1 2 3, of None "\<lambda>k. 0"] show ?thesis .
qed

section \<open>Form identification\<close>





section \<open>Grouping by position\<close>

lemma position_loop_eq:
  "position_loop random ss (length ss div 3) is (groups, calls) =
     (groups @ map (\<lambda>(k, i). position_group ss i (random k))
                (enumerate calls (filter (position_ok ss) is)),
      calls + length (filter (position_ok ss) is))"
  by (induction "is" arbitrary: groups calls)
     (simp_all add: Let_def position_group_def position_ok_def)

lemma groupByPosition_eq:
  "groupByPosition random ss =
     map (\<lambda>(k, i). position_group ss i (random k)) (enumerate 0 (position_iterations ss))"
  by (simp add: groupByPosition_def position_loop_eq position_iterations_def Let_def)

lemma analyzeSimilarity_fallback:
  assumes "lastAnalysis this = None" "length ss \<ge> 4"
  shows "fst (analyzeSimilarity loaded random this ss) =
     map (\<lambda>(k, i). position_group ss i (random k)) (enumerate 0 (position_iterations ss))"
  using assms by (simp add: analyzeSimilarity_def initializeModels_def groupByPosition_eq Let_def)

lemma js_slice_length:
  "a \<le> b \<Longrightarrow> b \<le> length xs \<Longrightarrow> length (js_slice xs (int a) (int b)) = b - a"
  by (simp add: js_slice_def js_index_def Let_def)

lemma map_enumerate_fst:
  "map (\<lambda>p. f (fst p)) (enumerate n xs) = map f [n..<n + length xs]"
proof -
  have "map (\<lambda>p. f (fst p)) (enumerate n xs) = map f (map fst (enumerate n xs))"
    by (simp only: map_map comp_def)
  then show ?thesis by (simp only: map_fst_enumerate)
qed

lemma first_position_ok:
  assumes "length ss \<ge> 4"
  shows "position_iterations ss \<noteq> []" "hd (position_iterations ss) = 0"
proof -
  have "1 \<le> length ss div 3" using assms by linarith
  then have len: "length (js_slice ss (int (0 * (length ss div 3)))
           (int (min (0 * (length ss div 3) + length ss div 3 + 1) (length ss)))) \<ge> 2"
    using assms by (subst js_slice_length) (auto simp: min_def)
  then have ok: "position_ok ss 0" by (simp add: position_ok_def)
  have tw: "takeWhile (\<lambda>i. real i < min 3 (real (length ss) / 2)) [0..<3]
      = 0 # takeWhile (\<lambda>i. real i < min 3 (real (length ss) / 2)) [1..<3]"
    using assms by (auto simp: upt_rec [of 0])
  show "position_iterations ss \<noteq> []" "hd (position_iterations ss) = 0"
    unfolding position_iterations_def tw using ok by simp_all
qed

text \<open>
  Claim C9, as the code has it: without relationship data and for at least 4
  structures, \<open>analyzeSimilarity\<close> returns at least one group; the group ids, the
  structure ids and the common features of the groups do not depend on
  \<open>Math.random()\<close>; the similarity score of the \<open>k\<close>-th group is \<open>0.75 + 0.2 * r\<close> for
  the \<open>k\<close>-th value \<open>r\<close> of \<open>Math.random()\<close>, so it lies from 0.75 up to but not
  including 0.95; two calls return identical lists exactly when \<open>Math.random()\<close>
  returns the same values in both.
\<close>

theorem analyzeSimilarity_fallback_scores:
  assumes "lastAnalysis this = None" and "length ss \<ge> 4"
  shows "fst (analyzeSimilarity loaded random this ss) \<noteq> []
    \<and> map (\<lambda>g. (groupId g, structureIds g, commonFeatures g))
          (fst (analyzeSimilarity loaded random this ss))
        = map (\<lambda>g. (groupId g, structureIds g, commonFeatures g))
          (fst (analyzeSimilarity loaded random' this ss))
    \<and> map similarityScore (fst (analyzeSimilarity loaded random this ss))
        = map (\<lambda>k. 0.75 + random k * 0.2)
            [0..<length (fst (analyzeSimilarity loaded random this ss))]
    \<and> ((\<forall>k. 0 \<le> random k \<and> random k < 1) \<longrightarrow>
          list_all (\<lambda>g. 0.75 \<le> similarityScore g \<and> similarityScore g < 0.95)
            (fst (analyzeSimilarity loaded random this ss)))
    \<and> (fst (analyzeSimilarity loaded random this ss) = fst (analyzeSimilarity loaded random' this ss)
          \<longleftrightarrow> (\<forall>k < length (fst (analyzeSimilarity loaded random this ss)). random k = random' k))"
proof -
  let ?its = "position_iterations ss"
  let ?res = "\<lambda>rnd. map (\<lambda>(k, i). position_group ss i (rnd k)) (enumerate 0 ?its)"
  note eq = analyzeSimilarity_fallback [OF assms]
  have ne: "?res random \<noteq> []"
    using first_position_ok(1) [OF assms(2)] by (cases ?its) simp_all
  have same: "map (\<lambda>g. (groupId g, structureIds g, commonFeatures g)) (?res random)
      = map (\<lambda>g. (groupId g, structureIds g, commonFeatures g)) (?res random')"
    by (simp add: position_group_def comp_def case_prod_unfold)
  have len: "length (?res random) = length ?its" by simp
  have scores: "map similarityScore (?res random)
      = map (\<lambda>k. 0.75 + random k * 0.2) [0..<length (?res random)]"
    using map_enumerate_fst [of "\<lambda>k. 0.75 + random k * 0.2" 0 ?its]
    by (simp add: position_group_def comp_def case_prod_unfold)
  have bounds: "list_all (\<lambda>g. 0.75 \<le> similarityScore g \<and> similarityScore g < 0.95) (?res random)"
    if "\<forall>k. 0 \<le> random k \<and> random k < 1"
  proof -
    have "0.75 \<le> 0.75 + random k * 0.2 \<and> 0.75 + random k * 0.2 < 0.95" for k
      using that [rule_format, of k] by simp
    then show ?thesis
      by (simp add: list_all_iff position_group_def case_prod_unfold)
  qed
  have iff: "?res random = ?res random' \<longleftrightarrow> (\<forall>k < length (?res random). random k = random' k)"
  proof
    assume e: "?res random = ?res random'"
    show "\<forall>k < length (?res random). random k = random' k"
    proof (intro allI impI)
      fix k assume "k < length (?res random)"
      then have k: "k < length ?its" by simp
      then have "?res random ! k = position_group ss (?its ! k) (random k)"
        "?res random' ! k = position_group ss (?its ! k) (random' k)"
        by (simp_all add: nth_enumerate_eq)
      with e have "position_group ss (?its ! k) (random k) = position_group ss (?its ! k) (random' k)"
        by metis
      then have "similarityScore (position_group ss (?its ! k) (random k))
          = similarityScore (position_group ss (?its ! k) (random' k))"
        by simp
      then show "random k = random' k" by (simp add: position_group_def)
    qed
  next
    assume a: "\<forall>k < length (?res random). random k = random' k"
    show "?res random = ?res random'"
    proof (rule map_cong [OF refl])
      fix p assume "p \<in> set (enumerate 0 ?its)"
      then have "fst p < length ?its" by (auto simp: in_set_enumerate_eq)
      with a have "random (fst p) = random' (fst p)" by simp
      then show "(case p of (k, i) \<Rightarrow> position_group ss i (random k))
          = (case p of (k, i) \<Rightarrow> position_group ss i (random' k))"
        by (simp add: case_prod_unfold)
    qed
  qed
  show ?thesis
    unfolding eq analyzeSimilarity_fallback [OF assms, of loaded random']
    using ne same scores bounds iff by blast
qed

lemma example_position_groups:
  "fst (analyzeSimilarity None random new_TransformersAIService
         four_structures)
     = [position_group four_structures 0 (random 0),
        position_group four_structures 1 (random 1)]"
proof -
  have upt_3: "[0..<3] = [0, 1, 2]" by (simp add: upt_rec)
  have its: "position_iterations four_structures = [0, 1]"
    unfolding position_iterations_def upt_3
    by (simp add: four_structures_def position_ok_def js_slice_def js_index_def Let_def)
  have "fst (analyzeSimilarity None random new_TransformersAIService four_structures)
      = map (\<lambda>(k, i). position_group four_structures i (random k))
          (enumerate 0 (position_iterations four_structures))"
    by (rule analyzeSimilarity_fallback)
       (simp_all add: new_TransformersAIService_def four_structures_def)
  then show ?thesis unfolding its by simp
qed

theorem analyzeSimilarity_fallback_scores_witness:
  "lastAnalysis new_TransformersAIService = None
   \<and> length four_structures \<ge> 4
   \<and> map (\<lambda>g. (groupId g, structureIds g, commonFeatures g))
        (fst (analyzeSimilarity None random_low new_TransformersAIService
               four_structures))
      = map (\<lambda>g. (groupId g, structureIds g, commonFeatures g))
        (fst (analyzeSimilarity None random_mid new_TransformersAIService
               four_structures))
   \<and> map (\<lambda>g. (groupId g, structureIds g))
        (fst (analyzeSimilarity None random_low new_TransformersAIService
               four_structures))
      = [(''A'', [''S1'', ''S2'']), (''B'', [''S2'', ''S3''])]"
proof -
  have 1: "lastAnalysis new_TransformersAIService = None"
    by (simp add: new_TransformersAIService_def)
  have 2: "length four_structures \<ge> 4" by (simp add: four_structures_def)
  from analyzeSimilarity_fallback_scores [OF 1 2, of None random_low random_mid]
  have same: "map (\<lambda>g. (groupId g, structureIds g, commonFeatures g))
        (fst (analyzeSimilarity None random_low new_TransformersAIService
               four_structures))
      = map (\<lambda>g. (groupId g, structureIds g, commonFeatures g))
        (fst (analyzeSimilarity None random_mid new_TransformersAIService
               four_structures))"
    by blast
  have ids: "map (\<lambda>g. (groupId g, structureIds g))
        (fst (analyzeSimilarity None random_low new_TransformersAIService
               four_structures))
      = [(''A'', [''S1'', ''S2'']), (''B'', [''S2'', ''S3''])]"
    unfolding example_position_groups
    by (simp add: position_group_def groupLabels_def four_structures_def example_structure_def
        js_slice_def js_index_def Let_def)
  from 1 2 same ids show ?thesis by simp
qed

text \<open>
  The claim as stated fails: two calls with the same four structures in the same state
  of the service, one while \<open>Math.random()\<close> returns \<open>0\<close> and one while it returns
  \<open>0.5\<close>, give the scores 0.75 and 0.85.
\<close>

theorem analyzeSimilarity_fallback_counterexample:
  "map similarityScore
     (fst (analyzeSimilarity None random_low new_TransformersAIService
            four_structures))
     = [0.75, 0.75]
   \<and> map similarityScore
     (fst (analyzeSimilarity None random_mid new_TransformersAIService
            four_structures))
     = [0.85, 0.85]
   \<and> fst (analyzeSimilarity None random_low new_TransformersAIService
            four_structures)
     \<noteq> fst (analyzeSimilarity None random_mid new_TransformersAIService
            four_structures)"
  unfolding example_position_groups
  by (simp add: position_group_def random_low_def random_mid_def)

section \<open>Pitch parsing\<close>

lemma not_digit_accidental [simp]: "\<not> isDigit (CHR ''#'')" "\<not> isDigit (CHR ''b'')"
  by (simp_all add: isDigit_def)

lemma match_pitch_grammar:
  assumes "match_pitch p = Some (note, accidental, octave)"
  shows "note \<in> set ''ABCDEFG''
    \<and> (accidental = None \<or> accidental = Some (CHR ''#'') \<or> accidental = Some (CHR ''b''))
    \<and> (case octave of None \<Rightarrow> True | Some ds \<Rightarrow> ds \<noteq> [] \<and> list_all isDigit ds)
    \<and> p = note # (case accidental of None \<Rightarrow> [] | Some c \<Rightarrow> [c])
              @ (case octave of None \<Rightarrow> [] | Some ds \<Rightarrow> ds)"
  using assms
  by (auto simp: match_pitch_def Let_def split: list.splits if_splits)

lemma match_pitch_None:
  assumes "\<not> (\<exists>l acc ds. l \<in> set ''ABCDEFG'' \<and> acc \<in> {[], ''#'', ''b''} \<and> list_all isDigit ds
              \<and> p = l # acc @ ds)"
  shows "match_pitch p = None"
proof (rule ccontr)
  assume "match_pitch p \<noteq> None"
  then obtain nt accidental octave where m: "match_pitch p = Some (nt, accidental, octave)"
    by (cases "match_pitch p") auto
  from match_pitch_grammar [OF m]
  have "nt \<in> set ''ABCDEFG''"
    "(case accidental of None \<Rightarrow> [] | Some c \<Rightarrow> [c]) \<in> {[], ''#'', ''b''}"
    "list_all isDigit (case octave of None \<Rightarrow> [] | Some ds \<Rightarrow> ds)"
    "p = nt # (case accidental of None \<Rightarrow> [] | Some c \<Rightarrow> [c])
              @ (case octave of None \<Rightarrow> [] | Some ds \<Rightarrow> ds)"
    by (auto split: option.splits)
  with assms show False by blast
qed

lemma match_pitch_letter:
  assumes "l \<in> set ''ABCDEFG''" "acc \<in> {[], ''#'', ''b''}" "list_all isDigit ds"
  shows "match_pitch (l # acc @ ds) =
           Some (l, (if acc = [] then None else Some (hd acc)), (if ds = [] then None else Some ds))"
  using assms
  by (cases ds) (auto simp: match_pitch_def Let_def)

lemma noteMap_defined: "l \<in> set ''ABCDEFG'' \<Longrightarrow> noteMap l \<noteq> None"
  by (auto simp: noteMap_def)

lemma parseInt_4: "parseInt ''4'' = 4"
  by (simp add: parseInt_def)

lemma count_moves_flat: "count_moves (replicate n v) acc = acc"
proof (induction n arbitrary: acc)
  case 0
  then show ?case by simp
next
  case (Suc n)
  obtain a d where acc: "acc = (a, d)" by (cases acc)
  show ?case
  proof (cases n)
    case 0
    then show ?thesis by simp
  next
    case (Suc m)
    with Suc.IH [of "(a, d)"] show ?thesis by (simp add: acc)
  qed
qed

lemma intervals_flat: "intervals_of (replicate n v) = replicate (n - 1) 0"
proof (induction n)
  case 0
  then show ?case by simp
next
  case (Suc n)
  then show ?case by (cases n) simp_all
qed

lemma foldl_add_replicate: "foldl (\<lambda>a b. a + b) (s::int) (replicate n v) = s + int n * v"
  by (induction n arbitrary: s) (simp_all add: algebra_simps)

lemma detectContour_range:
  "detectContour pitches \<in> {''stable'', ''ascending'', ''descending'', ''wave''}"
  by (simp add: detectContour_def Let_def split: prod.splits)

lemma pitchToNumber_malformed: "\<not> pitch_pattern p \<Longrightarrow> pitchToNumber p = 60"
  using match_pitch_None [of p] by (simp add: pitch_pattern_def pitchToNumber_def)

lemma pitchToNumber_no_octave:
  assumes "l \<in> set ''ABCDEFG''" "acc \<in> {[], ''#'', ''b''}"
  shows "pitchToNumber (l # acc) = pitchToNumber (l # acc @ ''4'')"
    and "pitchToNumber (l # acc) =
           the (noteMap l) + 4 * 12 + (if acc = ''#'' then 1 else if acc = ''b'' then - 1 else 0)"
proof -
  have d4: "list_all isDigit ''4''" by (simp add: isDigit_def)
  have a: "match_pitch (l # acc) = Some (l, (if acc = [] then None else Some (hd acc)), None)"
    using match_pitch_letter [OF assms, of "[]"] by simp
  have b: "match_pitch (l # acc @ ''4'') = Some (l, (if acc = [] then None else Some (hd acc)), Some ''4'')"
    using match_pitch_letter [OF assms d4] by simp
  show "pitchToNumber (l # acc) = pitchToNumber (l # acc @ ''4'')"
    by (simp only: pitchToNumber_def a b) simp
  show "pitchToNumber (l # acc) =
           the (noteMap l) + 4 * 12 + (if acc = ''#'' then 1 else if acc = ''b'' then - 1 else 0)"
    using assms(2) by (simp only: pitchToNumber_def a) (auto simp: parseInt_4 Let_def)
qed

lemma map_all_const: "\<forall>x\<in>set xs. f x = c \<Longrightarrow> map f xs = replicate (length xs) c"
  by (induction xs) simp_all

lemma detectContour_malformed:
  assumes "\<forall>p\<in>set pitches. \<not> pitch_pattern p"
  shows "detectContour pitches = (if length pitches < 2 then ''stable'' else ''wave'')"
proof -
  have "map pitchToNumber pitches = replicate (length pitches) 60"
    using assms by (intro map_all_const) (simp add: pitchToNumber_malformed)
  then show ?thesis
    by (simp add: detectContour_def count_moves_flat Let_def)
qed

lemma features_malformed:
  assumes "structure_notes s = Some ns" "\<forall>n\<in>set ns. \<not> pitch_pattern (pitch n)"
  shows "brightness (extractStructureFeatures s) = 1 / 3"
    and "tension (extractStructureFeatures s) = (if length ns > 1 then 0 else 0.5)"
proof -
  have ps: "map (\<lambda>n. pitchToNumber (pitch n)) ns = replicate (length ns) 60"
    using assms(2) by (intro map_all_const) (simp add: pitchToNumber_malformed)
  show "brightness (extractStructureFeatures s) = 1 / 3"
    by (simp add: extractStructureFeatures_def assms(1) ps foldl_add_replicate Let_def)
  show "tension (extractStructureFeatures s) = (if length ns > 1 then 0 else 0.5)"
    by (simp add: extractStructureFeatures_def assms(1) ps intervals_flat foldl_add_replicate Let_def)
qed

lemma features_bounds:
  "0 \<le> brightness (extractStructureFeatures s)" "brightness (extractStructureFeatures s) \<le> 1"
  "tension (extractStructureFeatures s) \<le> 1"
  by (simp_all add: extractStructureFeatures_def Let_def)

lemma description_shape:
  "\<exists>tempo\<in>set [''fast'', ''slow'', ''moderate''].
   \<exists>contour\<in>set [''stable'', ''ascending'', ''descending'', ''wave''].
   \<exists>suffix\<in>set ['''', '', with repetitive patterns''].
     generateStructureDescription structure musicData =
       ''Musical phrase from measure '' @ show_int (startMeasure structure) @ '' to ''
         @ show_int (endMeasure structure) @ '', '' @ tempo @ '' tempo, '' @ contour
         @ '' melodic contour'' @ suffix"
proof -
  let ?ps = "map pitch (concat (map measure_notes
      (js_slice (measures musicData) (startMeasure structure - 1) (endMeasure structure))))"
  have "detectContour ?ps \<in> set [''stable'', ''ascending'', ''descending'', ''wave'']"
    using detectContour_range [of ?ps] by simp
  then show ?thesis
    unfolding generateStructureDescription_def Let_def by auto
qed

text \<open>
  Claim C10: \<open>pitchToNumber\<close> returns 60 for every string outside the pitch pattern; a
  letter with an optional accidental and no octave is read as in octave 4, and the
  lookup of its letter in \<open>noteMap\<close> is defined. So the callers have a result for every
  list of pitch strings: \<open>detectContour\<close> returns one of its four contours, which is
  \<open>stable\<close> or \<open>wave\<close> when every pitch is malformed; \<open>extractStructureFeatures\<close>
  returns a brightness between 0 and 1 and a tension of at most 1, which are 1/3 and,
  for more than one note, 0 when every pitch is malformed;
  \<open>generateStructureDescription\<close> returns its sentence with one of the three tempi,
  one of the four contours and the optional remark on repetition.
\<close>

theorem pitch_parsing_total:
  "(\<not> pitch_pattern p \<longrightarrow> pitchToNumber p = 60)
   \<and> (l \<in> set ''ABCDEFG'' \<and> acc \<in> {[], ''#'', ''b''} \<longrightarrow>
        noteMap l \<noteq> None
        \<and> pitchToNumber (l # acc) = pitchToNumber (l # acc @ ''4'')
        \<and> pitchToNumber (l # acc)
            = the (noteMap l) + 4 * 12 + (if acc = ''#'' then 1 else if acc = ''b'' then - 1 else 0))
   \<and> detectContour pitches \<in> {''stable'', ''ascending'', ''descending'', ''wave''}
   \<and> ((\<forall>q\<in>set pitches. \<not> pitch_pattern q) \<longrightarrow>
        detectContour pitches = (if length pitches < 2 then ''stable'' else ''wave''))
   \<and> 0 \<le> brightness (extractStructureFeatures s) \<and> brightness (extractStructureFeatures s) \<le> 1
   \<and> tension (extractStructureFeatures s) \<le> 1
   \<and> (structure_notes s = Some ns \<and> (\<forall>n\<in>set ns. \<not> pitch_pattern (pitch n)) \<longrightarrow>
        brightness (extractStructureFeatures s) = 1 / 3
        \<and> tension (extractStructureFeatures s) = (if length ns > 1 then 0 else 0.5))
   \<and> (\<exists>tempo\<in>set [''fast'', ''slow'', ''moderate''].
       \<exists>contour\<in>set [''stable'', ''ascending'', ''descending'', ''wave''].
       \<exists>suffix\<in>set ['''', '', with repetitive patterns''].
         generateStructureDescription s musicData =
           ''Musical phrase from measure '' @ show_int (startMeasure s) @ '' to ''
             @ show_int (endMeasure s) @ '', '' @ tempo @ '' tempo, '' @ contour
             @ '' melodic contour'' @ suffix)"
  using pitchToNumber_malformed [of p] pitchToNumber_no_octave [of l acc] noteMap_defined [of l]
    detectContour_range [of pitches] detectContour_malformed [of pitches]
    features_bounds [of s] features_malformed [of s ns] description_shape [of s musicData]
  by blast

lemma example_malformed: "\<not> pitch_pattern ''H2''" "\<not> pitch_pattern ''do''"
  by (auto simp: pitch_pattern_def Cons_eq_append_conv)

theorem pitch_parsing_total_witness:
  "\<not> pitch_pattern ''H2''
   \<and> pitchToNumber ''H2'' = 60
   \<and> pitchToNumber ''C#'' = pitchToNumber ''C#4''
   \<and> pitchToNumber ''C#'' = 49
   \<and> detectContour [''H2'', ''do''] = ''wave''
   \<and> brightness (extractStructureFeatures malformed_structure) = 1 / 3
   \<and> tension (extractStructureFeatures malformed_structure) = 0"
proof -
  let ?ns = "[\<lparr>pitch = ''H2'', duration = 1\<rparr>, \<lparr>pitch = ''do'', duration = 1\<rparr>]"
  have sn: "structure_notes malformed_structure = Some ?ns"
    by (simp add: malformed_structure_def)
  have bad: "\<forall>q\<in>set [''H2'', ''do'']. \<not> pitch_pattern q"
    "\<forall>n\<in>set ?ns. \<not> pitch_pattern (pitch n)"
    by (simp_all add: example_malformed)
  have letter: "CHR ''C'' \<in> set ''ABCDEFG'' \<and> ''#'' \<in> {[], ''#'', ''b''}" by simp
  have c: "the (noteMap (CHR ''C'')) = 0" by (simp add: noteMap_def)
  note total = pitch_parsing_total [of "''H2''" "CHR ''C''" "''#''" "[''H2'', ''do'']"
      malformed_structure ?ns]
  from total example_malformed(1) have 1: "pitchToNumber ''H2'' = 60" by blast
  from total letter have 2: "pitchToNumber (CHR ''C'' # ''#'') = pitchToNumber (CHR ''C'' # ''#'' @ ''4'')"
    by blast
  from total letter have 3: "pitchToNumber (CHR ''C'' # ''#'')
      = the (noteMap (CHR ''C'')) + 4 * 12 + (if ''#'' = ''#'' then 1 else if ''#'' = ''b'' then - 1 else 0)"
    by blast
  from total bad(1) have 4: "detectContour [''H2'', ''do'']
      = (if length [''H2'', ''do''] < 2 then ''stable'' else ''wave'')"
    by blast
  from total sn bad(2) have 5: "brightness (extractStructureFeatures malformed_structure) = 1 / 3"
    "tension (extractStructureFeatures malformed_structure) = (if length ?ns > 1 then 0 else 0.5)"
    by blast+
  from example_malformed(1) 1 2 3 4 5 c show ?thesis by simp
qed

end
